theory Spec2Isabelle
  imports Main "HOL-Library.Word"
begin

section \<open>Python values and the library functions the code calls\<close>

text \<open>
  A Python \<open>str\<close> is modelled as a \<open>string\<close>, one \<open>char\<close> for each code point, so
  \<open>length\<close> is Python's \<open>len\<close>; the model covers the code points below 256.
  Python's unbounded integers are \<open>int\<close>. A \<open>float\<close> is kept as its 64 bits, a
  \<open>bytes\<close> object as its list of bytes.
\<close>

record datetime =
  dt_year :: int
  dt_month :: int
  dt_day :: int
  dt_hour :: int
  dt_minute :: int
  dt_second :: int
  dt_microsecond :: int
  dt_utcoffset :: "int option"

datatype pyval =
    PNone
  | PBool bool
  | PInt int
  | PFloat "64 word"
  | PStr string
  | PBytes "8 word list"
  | PList "pyval list"
  | PDict "(string \<times> pyval) list"
  | PDatetime datetime

text \<open>
  A \<open>dict\<close> with string keys is the list of its items in insertion order; \<open>map_of\<close> looks a
  key up. \<open>dict_set d k v\<close> is \<open>d[k] = v\<close> and \<open>dict_update d other\<close> is \<open>d.update(other)\<close>,
  which stores the items of \<open>other\<close> one after the other.
\<close>

type_synonym pydict = "(string \<times> pyval) list"

fun dict_set :: "pydict \<Rightarrow> string \<Rightarrow> pyval \<Rightarrow> pydict" where
  "dict_set [] k v = [(k, v)]"
| "dict_set ((k', v') # d) k v = (if k' = k then (k, v) # d else (k', v') # dict_set d k v)"

definition dict_update :: "pydict \<Rightarrow> pydict \<Rightarrow> pydict" where
  "dict_update d other = fold (\<lambda>(k, v) d'. dict_set d' k v) other d"

datatype error =
    TypeError
  | ValueError
  | KeyError
  | AttributeError
  | ZeroDivisionError
  | JSONDecodeError
  | InterfaceError
  | OverflowError
  | IntegrityError
  | OperationalError

text \<open>
  The functions of Python's standard library that the repository calls and does not
  define are parameters of the model, collected in one record:
  \<^item> \<open>sha256_hexdigest s\<close> is \<open>hashlib.sha256(s.encode()).hexdigest()\<close>;
  \<^item> \<open>scale_by_ratio n a b\<close> is the floating-point expression \<open>int(n * (a / b))\<close>
    for \<open>b \<noteq> 0\<close>, and \<open>scale_overflows n a b\<close> tells whether it raises \<open>OverflowError\<close>
    instead of having a value (the quotient of two integers is too large for a float,
    or the product is infinite);
  \<^item> \<open>float_exceeds t c\<close> is the value of the comparison \<open>t > c * 1.5\<close> of an integer
    with a float, for an integer \<open>c\<close> that converts to a float;
  \<^item> \<open>json_loads\<close> is \<open>json.loads\<close> on a \<open>str\<close> or \<open>bytes\<close> value and \<open>json_dumps\<close> is
    \<open>json.dumps\<close>, \<open>None\<close> standing for the exception they raise;
  \<^item> \<open>parse_isoformat\<close> is \<open>datetime.fromisoformat\<close>, \<open>None\<close> for its \<open>ValueError\<close>;
  \<^item> \<open>isoformat\<close> is \<open>datetime.isoformat\<close>;
  \<^item> \<open>py_repr\<close> is \<open>str()\<close> on the values whose text form is not written out below
    (floats, bytes, lists, dicts, datetimes);
  \<^item> \<open>now\<close> is the reading of \<open>datetime.now()\<close>, one value for all the calls.
\<close>

record pylib =
  sha256_hexdigest :: "string \<Rightarrow> string"
  scale_by_ratio :: "nat \<Rightarrow> int \<Rightarrow> int \<Rightarrow> int"
  scale_overflows :: "nat \<Rightarrow> int \<Rightarrow> int \<Rightarrow> bool"
  float_exceeds :: "int \<Rightarrow> int \<Rightarrow> bool"
  json_loads :: "pyval \<Rightarrow> pyval option"
  json_dumps :: "pyval \<Rightarrow> string option"
  parse_isoformat :: "string \<Rightarrow> datetime option"
  isoformat :: "datetime \<Rightarrow> string"
  py_repr :: "pyval \<Rightarrow> string"
  now :: datetime

section \<open>core/chunker.py\<close>

subsection \<open>Strings\<close>

text \<open>\<open>str.isspace\<close> on one character, which is also the class \<open>\s\<close> of \<open>re\<close> on a \<open>str\<close>.\<close>

definition isspace :: "char \<Rightarrow> bool" where
  "isspace c = ((of_char c :: nat) \<in> set [9, 10, 11, 12, 13, 28, 29, 30, 31, 32, 133, 160])"

definition newline :: char where
  "newline = CHR 0x0A"

text \<open>\<open>s.strip()\<close>.\<close>

definition strip :: "string \<Rightarrow> string" where
  "strip s = rev (dropWhile isspace (rev (dropWhile isspace s)))"

text \<open>\<open>sep.join(xs)\<close>.\<close>

fun join :: "string \<Rightarrow> string list \<Rightarrow> string" where
  "join sep [] = []"
| "join sep [x] = x"
| "join sep (x # y # ys) = x @ sep @ join sep (y # ys)"

text \<open>
  \<open>s.split()\<close>: the maximal runs of characters that are not whitespace. \<open>cur\<close> is the
  run being read, reversed.
\<close>

fun split_ws :: "string \<Rightarrow> string \<Rightarrow> string list" where
  "split_ws cur [] = (if cur = [] then [] else [rev cur])"
| "split_ws cur (c # cs) =
     (if isspace c then (if cur = [] then split_ws [] cs else rev cur # split_ws [] cs)
      else split_ws (c # cur) cs)"

definition py_split :: "string \<Rightarrow> string list" where
  "py_split s = split_ws [] s"

text \<open>
  \<open>re.split(pattern, s)\<close> for a pattern that never matches the empty string. The
  matcher \<open>m prev s\<close> gives the length of the match of the pattern at the head of \<open>s\<close>,
  where \<open>prev\<close> is the character before it, and 0 when the pattern does not match
  there. The scan goes left to right and resumes after each match; \<open>cur\<close> is the piece
  being read, reversed.
\<close>

fun re_split :: "(char option \<Rightarrow> string \<Rightarrow> nat) \<Rightarrow> char option \<Rightarrow> string \<Rightarrow> string \<Rightarrow> string list" where
  "re_split m prev cur [] = [rev cur]"
| "re_split m prev cur (c # cs) =
     (let k = m prev (c # cs) in
      if k = 0 then re_split m (Some c) (c # cur) cs
      else rev cur # re_split m (Some (last (take k (c # cs)))) [] (drop (k - 1) cs))"

text \<open>
  The pattern \<open>\n\s*\n\<close>: a newline, then the longest run of whitespace that still ends
  in a newline (the greedy \<open>\s*\<close> backs off to the last newline of the run).
\<close>

definition blank_line_match :: "char option \<Rightarrow> string \<Rightarrow> nat" where
  "blank_line_match prev s =
     (case s of
        [] \<Rightarrow> 0
      | c # cs \<Rightarrow>
          if c = newline then
            (let run = takeWhile isspace cs in
             if newline \<in> set run
             then 1 + (length run - length (takeWhile (\<lambda>x. x \<noteq> newline) (rev run)))
             else 0)
          else 0)"

text \<open>
  The pattern \<open>(?<=[.!?])\s+\<close>: the longest run of whitespace, where the character
  before it is a full stop, an exclamation mark or a question mark.
\<close>

definition sentence_end_match :: "char option \<Rightarrow> string \<Rightarrow> nat" where
  "sentence_end_match prev s =
     (case prev of
        None \<Rightarrow> 0
      | Some p \<Rightarrow>
          if p = CHR ''.'' \<or> p = CHR ''!'' \<or> p = CHR ''?''
          then length (takeWhile isspace s) else 0)"

text \<open>The decimal text of an integer, as \<open>str(n)\<close> and an f-string write it.\<close>

fun str_of_nat :: "nat \<Rightarrow> string" where
  "str_of_nat n =
     (if n < 10 then [''0123456789'' ! n]
      else str_of_nat (n div 10) @ [''0123456789'' ! (n mod 10)])"

definition str_of_int :: "int \<Rightarrow> string" where
  "str_of_int i = (if i < 0 then CHR ''-'' # str_of_nat (nat (- i)) else str_of_nat (nat i))"

subsection \<open>The chunker\<close>

record Chunk =
  chunk_id :: string
  document_id :: string
  chunk_index :: int
  content :: string
  metadata :: pydict

text \<open>
  A \<open>DocumentChunker\<close> object. Its attribute \<open>overlap_percent\<close> is a float that is read
  only by the constructor, which sets \<open>overlap_size = int(chunk_size * overlap_percent)\<close>;
  the object is modelled by its integer attributes.
\<close>

record DocumentChunker =
  chunk_size :: int
  overlap_size :: int
  min_chunk_size :: int

definition estimate_tokens :: "string \<Rightarrow> int" where
  "estimate_tokens text = int (length text) div 4"

definition should_chunk :: "DocumentChunker \<Rightarrow> string \<Rightarrow> bool" where
  "should_chunk C text = (estimate_tokens text > chunk_size C)"

definition split_into_segments :: "string \<Rightarrow> string list" where
  "split_into_segments text =
     map strip (filter (\<lambda>s. strip s \<noteq> []) (re_split blank_line_match None [] text))"

definition split_into_sentences :: "string \<Rightarrow> string list" where
  "split_into_sentences text =
     map strip (filter (\<lambda>s. strip s \<noteq> []) (re_split sentence_end_match None [] text))"

text \<open>
  \<open>_get_overlap_content\<close>. The division \<open>self.overlap_size / tokens\<close> raises
  \<open>ZeroDivisionError\<close> when \<open>tokens\<close> is 0, which the guard before it allows only for a
  negative \<open>overlap_size\<close>. The expression \<open>int(len(words) * (self.overlap_size / tokens))\<close>
  raises \<open>OverflowError\<close> when the quotient is too large for a float or the product is
  infinite. Past the guard \<open>overlap_size < tokens\<close> holds, so for an \<open>overlap_size\<close> that is
  not negative the quotient lies between 0 and 1 and the product is at most
  \<open>len(words)\<close>: the expression can overflow only for a negative \<open>overlap_size\<close>, where
  the library decides. \<open>words[-overlap_words:]\<close> is the last \<open>overlap_words\<close> words, or all
  of them when there are fewer.
\<close>

definition get_overlap_content :: "pylib \<Rightarrow> DocumentChunker \<Rightarrow> string list \<Rightarrow> error + string" where
  "get_overlap_content E C chunks =
     (if chunks = [] then Inr []
      else
        let full_content = join '' '' chunks;
            tokens = estimate_tokens full_content
        in
          if tokens \<le> overlap_size C then Inr full_content
          else
            let words = py_split full_content in
            if tokens = 0 then Inl ZeroDivisionError
            else if overlap_size C < 0 \<and> scale_overflows E (length words) (overlap_size C) tokens
            then Inl OverflowError
            else
              let overlap_words = scale_by_ratio E (length words) (overlap_size C) tokens in
              Inr (if overlap_words > 0
                   then join '' '' (drop (length words - nat overlap_words) words)
                   else []))"

text \<open>
  \<open>_create_chunk\<close>. The computed keys are written first; \<open>chunk_metadata.update(metadata)\<close>
  runs when \<open>metadata\<close> is neither \<open>None\<close> nor empty.
\<close>

definition create_chunk :: "string \<Rightarrow> int \<Rightarrow> string \<Rightarrow> pydict option \<Rightarrow> Chunk" where
  "create_chunk doc_id idx text meta =
     (let chunk_metadata =
            [(''chunk_index'', PInt idx),
             (''token_count'', PInt (estimate_tokens text)),
             (''char_count'', PInt (int (length text)))];
          chunk_metadata' =
            (case meta of
               None \<Rightarrow> chunk_metadata
             | Some m \<Rightarrow> if m = [] then chunk_metadata else dict_update chunk_metadata m)
      in \<lparr> chunk_id = doc_id @ ''_chunk_'' @ str_of_int idx,
           document_id = doc_id,
           chunk_index = idx,
           content = text,
           metadata = chunk_metadata' \<rparr>)"

text \<open>
  The local variables of the loop of \<open>chunk_document\<close>: \<open>chunks\<close>,
  \<open>current_chunk_content\<close>, \<open>current_token_count\<close> and \<open>chunk_index\<close>.
\<close>

record chunk_state =
  st_chunks :: "Chunk list"
  st_current :: "string list"
  st_tokens :: int
  st_index :: int

text \<open>
  The body that \<open>chunk_document\<close> runs for one sentence of a long segment (joining with
  a space) and, after its first test, for one segment (joining with a blank line): when
  the unit does not fit, close the current chunk if there is one, and start the next
  chunk with the overlap and the unit; otherwise append the unit.
\<close>

definition add_unit ::
  "pylib \<Rightarrow> DocumentChunker \<Rightarrow> string \<Rightarrow> pydict option \<Rightarrow> string \<Rightarrow> string \<Rightarrow>
   chunk_state \<Rightarrow> error + chunk_state" where
  "add_unit E C doc_id meta sep unit st =
     (let unit_tokens = estimate_tokens unit in
      if st_tokens st + unit_tokens > chunk_size C then
        let st1 =
              (if st_current st \<noteq> []
               then st\<lparr> st_chunks :=
                          st_chunks st @ [create_chunk doc_id (st_index st) (join sep (st_current st)) meta],
                        st_index := st_index st + 1 \<rparr>
               else st)
        in
          case get_overlap_content E C (st_current st) of
            Inl e \<Rightarrow> Inl e
          | Inr overlap_content \<Rightarrow>
              let cur = (if overlap_content \<noteq> [] then [overlap_content, unit] else [unit]) in
              Inr (st1\<lparr> st_current := cur, st_tokens := estimate_tokens (join sep cur) \<rparr>)
      else
        Inr (st\<lparr> st_current := st_current st @ [unit], st_tokens := st_tokens st + unit_tokens \<rparr>))"

text \<open>The inner loop \<open>for sentence in sentences\<close>.\<close>

fun chunk_sentences ::
  "pylib \<Rightarrow> DocumentChunker \<Rightarrow> string \<Rightarrow> pydict option \<Rightarrow> string list \<Rightarrow>
   chunk_state \<Rightarrow> error + chunk_state" where
  "chunk_sentences E C doc_id meta [] st = Inr st"
| "chunk_sentences E C doc_id meta (sentence # rest) st =
     (case add_unit E C doc_id meta '' '' sentence st of
        Inl e \<Rightarrow> Inl e
      | Inr st' \<Rightarrow> chunk_sentences E C doc_id meta rest st')"

text \<open>
  The test \<open>segment_tokens > self.chunk_size * 1.5\<close> multiplies an integer by a float
  and compares an integer with the product. The multiplication converts \<open>chunk_size\<close> to
  a float first, which raises \<open>OverflowError\<close> for an integer that rounds to \<open>2^1024\<close> or
  beyond, that is from \<open>2^1024 - 2^970\<close> on in magnitude. For a \<open>chunk_size\<close> of at most
  \<open>2^51\<close> in magnitude the conversion and the product are exact (\<open>3 * chunk_size\<close> has
  at most 53 bits), and so is the comparison of an integer with a float: the test is
  \<open>2 * segment_tokens > 3 * chunk_size\<close>. In between, the product is rounded or infinite,
  and the library decides.
\<close>

definition exceeds_one_and_a_half :: "pylib \<Rightarrow> int \<Rightarrow> int \<Rightarrow> error + bool" where
  "exceeds_one_and_a_half E t c =
     (if \<bar>c\<bar> \<le> 2 ^ 51 then Inr (2 * t > 3 * c)
      else if 2 ^ 1024 - 2 ^ 970 \<le> \<bar>c\<bar> then Inl OverflowError
      else Inr (float_exceeds E t c))"

text \<open>The outer loop \<open>for segment in segments\<close>.\<close>

fun chunk_segments ::
  "pylib \<Rightarrow> DocumentChunker \<Rightarrow> string \<Rightarrow> pydict option \<Rightarrow> string list \<Rightarrow>
   chunk_state \<Rightarrow> error + chunk_state" where
  "chunk_segments E C doc_id meta [] st = Inr st"
| "chunk_segments E C doc_id meta (segment # rest) st =
     (let segment_tokens = estimate_tokens segment in
      case exceeds_one_and_a_half E segment_tokens (chunk_size C) of
        Inl e \<Rightarrow> Inl e
      | Inr long_segment \<Rightarrow>
          (case (if long_segment
                 then chunk_sentences E C doc_id meta (split_into_sentences segment) st
                 else add_unit E C doc_id meta [newline, newline] segment st) of
             Inl e \<Rightarrow> Inl e
           | Inr st' \<Rightarrow> chunk_segments E C doc_id meta rest st'))"

definition chunk_document ::
  "pylib \<Rightarrow> DocumentChunker \<Rightarrow> string \<Rightarrow> string \<Rightarrow> pydict option \<Rightarrow> error + Chunk list" where
  "chunk_document E C doc_id text meta =
     (if \<not> should_chunk C text then Inr []
      else
        let segments = split_into_segments text in
        case chunk_segments E C doc_id meta segments
               \<lparr> st_chunks = [], st_current = [], st_tokens = 0, st_index = 0 \<rparr> of
          Inl e \<Rightarrow> Inl e
        | Inr st \<Rightarrow>
            Inr (if st_current st \<noteq> []
                 then st_chunks st @
                      [create_chunk doc_id (st_index st) (join [newline, newline] (st_current st)) meta]
                 else st_chunks st))"

text \<open>The chunker with the default arguments of the constructor: \<open>int(800 * 0.15) = 120\<close>.\<close>

definition default_chunker :: DocumentChunker where
  "default_chunker = \<lparr> chunk_size = 800, overlap_size = 120, min_chunk_size = 500 \<rparr>"


text \<open>
  \<open>generate_document_id\<close>: the first 1000 characters of the content, the source path and
  the timestamp are concatenated with nothing between them, and hashed.
\<close>

definition unique_str :: "string \<Rightarrow> string \<Rightarrow> string \<Rightarrow> string" where
  "unique_str text source_path created_at =
     (let content_sample = (if length text > 1000 then take 1000 text else text)
      in content_sample @ source_path @ created_at)"

definition generate_document_id :: "pylib \<Rightarrow> string \<Rightarrow> string \<Rightarrow> string \<Rightarrow> string" where
  "generate_document_id E text source_path created_at =
     sha256_hexdigest E (unique_str text source_path created_at)"

section \<open>Python values at run time\<close>

text \<open>\<open>bool(x)\<close>, the truth value that \<open>if x\<close>, \<open>x or y\<close> and \<open>x and y\<close> test.\<close>

fun py_truthy :: "pyval \<Rightarrow> bool" where
  "py_truthy PNone = False"
| "py_truthy (PBool b) = b"
| "py_truthy (PInt i) = (i \<noteq> 0)"
| "py_truthy (PFloat w) = (w \<noteq> 0 \<and> w \<noteq> 0x8000000000000000)"
| "py_truthy (PStr s) = (s \<noteq> [])"
| "py_truthy (PBytes b) = (b \<noteq> [])"
| "py_truthy (PList xs) = (xs \<noteq> [])"
| "py_truthy (PDict d) = (d \<noteq> [])"
| "py_truthy (PDatetime d) = True"

text \<open>The text that an f-string puts for \<open>{x}\<close>.\<close>

fun py_format :: "pylib \<Rightarrow> pyval \<Rightarrow> string" where
  "py_format E (PStr s) = s"
| "py_format E PNone = ''None''"
| "py_format E (PBool b) = (if b then ''True'' else ''False'')"
| "py_format E (PInt i) = str_of_int i"
| "py_format E v = py_repr E v"

text \<open>\<open>len(x)\<close> and the slice \<open>x[:n]\<close>, which raise on a value that has no length.\<close>

fun py_len :: "pyval \<Rightarrow> error + nat" where
  "py_len (PStr s) = Inr (length s)"
| "py_len (PBytes b) = Inr (length b)"
| "py_len (PList xs) = Inr (length xs)"
| "py_len (PDict d) = Inr (length d)"
| "py_len v = Inl TypeError"

fun py_take :: "nat \<Rightarrow> pyval \<Rightarrow> error + pyval" where
  "py_take n (PStr s) = Inr (PStr (take n s))"
| "py_take n (PBytes b) = Inr (PBytes (take n b))"
| "py_take n (PList xs) = Inr (PList (take n xs))"
| "py_take n v = Inl TypeError"

text \<open>\<open>needle in s\<close> for two strings: \<open>needle\<close> occurs in \<open>s\<close> as a substring.\<close>

fun is_substring :: "string \<Rightarrow> string \<Rightarrow> bool" where
  "is_substring needle [] = (needle = [])"
| "is_substring needle (c # cs) =
     (take (length needle) (c # cs) = needle \<or> is_substring needle cs)"

text \<open>\<open>key in x\<close> for a string \<open>key\<close>, and \<open>x[key]\<close> once \<open>key in x\<close> holds.\<close>

fun py_contains :: "string \<Rightarrow> pyval \<Rightarrow> error + bool" where
  "py_contains key (PDict d) = Inr (key \<in> set (map fst d))"
| "py_contains key (PList xs) = Inr (PStr key \<in> set xs)"
| "py_contains key (PStr s) = Inr (is_substring key s)"
| "py_contains key v = Inl TypeError"

fun py_getitem :: "pyval \<Rightarrow> string \<Rightarrow> error + pyval" where
  "py_getitem (PDict d) key = (case map_of d key of None \<Rightarrow> Inl KeyError | Some v \<Rightarrow> Inr v)"
| "py_getitem v key = Inl TypeError"

text \<open>
  \<open>generate_document_id\<close> as Python runs it when the arguments need not be strings:
  \<open>len\<close> and the slice raise \<open>TypeError\<close> on a content that has no length, and the
  f-string formats whatever the three values are.
\<close>

definition generate_document_id_any :: "pylib \<Rightarrow> pyval \<Rightarrow> pyval \<Rightarrow> pyval \<Rightarrow> error + string" where
  "generate_document_id_any E content_value source_path created_at =
     (case py_len content_value of
        Inl e \<Rightarrow> Inl e
      | Inr n \<Rightarrow>
          (case (if n > 1000 then py_take 1000 content_value else Inr content_value) of
             Inl e \<Rightarrow> Inl e
           | Inr content_sample \<Rightarrow>
               Inr (sha256_hexdigest E
                      (py_format E content_sample @ py_format E source_path @
                       py_format E created_at))))"

text \<open>
  \<open>json.loads(x)\<close>: a \<open>str\<close> or \<open>bytes\<close> argument is parsed by the library; any other
  value raises \<open>TypeError\<close>.
\<close>

fun py_json_loads :: "pylib \<Rightarrow> pyval \<Rightarrow> error + pyval" where
  "py_json_loads E (PStr s) =
     (case json_loads E (PStr s) of None \<Rightarrow> Inl JSONDecodeError | Some v \<Rightarrow> Inr v)"
| "py_json_loads E (PBytes b) =
     (case json_loads E (PBytes b) of None \<Rightarrow> Inl JSONDecodeError | Some v \<Rightarrow> Inr v)"
| "py_json_loads E v = Inl TypeError"

definition isdigit :: "char \<Rightarrow> bool" where
  "isdigit c = ((of_char c :: nat) \<in> set [48, 49, 50, 51, 52, 53, 54, 55, 56, 57])"

text \<open>
  \<open>datetime.fromisoformat(s)\<close>. Every form that it reads starts with the year, so it
  raises \<open>ValueError\<close> when none of the first four characters is a decimal digit; on the
  other strings the result is the library's.
\<close>

definition py_fromisoformat :: "pylib \<Rightarrow> string \<Rightarrow> error + datetime" where
  "py_fromisoformat E s =
     (if \<not> list_ex isdigit (take 4 s) then Inl ValueError
      else case parse_isoformat E s of None \<Rightarrow> Inl ValueError | Some d \<Rightarrow> Inr d)"

text \<open>\<open>s.replace('Z', '+00:00')\<close>.\<close>

definition replace_Z :: "string \<Rightarrow> string" where
  "replace_Z s = concat (map (\<lambda>c. if c = CHR ''Z'' then ''+00:00'' else [c]) s)"

text \<open>
  A call \<open>f(k1=v1, ..., kn=vn)\<close> of a function whose parameters are \<open>required\<close> (no
  default) and \<open>defaults\<close> (name and default value): a keyword that is not a parameter,
  or a required parameter that is not given, raises \<open>TypeError\<close>; otherwise the
  parameters are bound. \<open>arg\<close> reads a bound parameter.
\<close>

definition call_keywords :: "string list \<Rightarrow> pydict \<Rightarrow> pydict \<Rightarrow> error + pydict" where
  "call_keywords required defaults kwargs =
     (if list_ex (\<lambda>k. k \<notin> set required \<and> k \<notin> set (map fst defaults)) (map fst kwargs)
      then Inl TypeError
      else if list_ex (\<lambda>r. r \<notin> set (map fst kwargs)) required then Inl TypeError
      else Inr (dict_update defaults kwargs))"

definition arg :: "pydict \<Rightarrow> string \<Rightarrow> pyval" where
  "arg a name = (case map_of a name of None \<Rightarrow> PNone | Some v \<Rightarrow> v)"

section \<open>core/database.py\<close>

text \<open>
  A row that \<open>fetchall\<close> returns for the \<open>SELECT\<close> of \<open>migrate_tweets_to_documents\<close> and
  for the one of \<open>migrate_thoughts_to_documents\<close>: one value for each selected column.
  SQLite types its values one by one, so every field is a Python value (of the ones
  that \<open>sqlite3\<close> returns: \<open>None\<close>, \<open>int\<close>, \<open>float\<close>, \<open>str\<close>, \<open>bytes\<close>).
\<close>

record tweet_row =
  tw_tweet_id :: pyval
  tw_user_id :: pyval
  tw_created_at :: pyval
  tw_full_text :: pyval
  tw_reply_to_tweet_id :: pyval
  tw_reply_to_user :: pyval
  tw_retweet_count :: pyval
  tw_favorite_count :: pyval
  tw_is_retweet :: pyval
  tw_is_reply :: pyval
  tw_entities :: pyval

record thought_row =
  th_id :: pyval
  th_content :: pyval
  th_tags :: pyval
  th_category :: pyval
  th_created_at :: pyval
  th_updated_at :: pyval

text \<open>
  The repository has two \<open>Database\<close> classes, \<open>proof_of_monk.core.database.Database\<close>
  and \<open>proof_of_self.core.database.Database\<close>, with the same \<open>conn\<close> attribute and
  different \<open>insert_document\<close> methods. A \<open>Database\<close> object is its class and the tables of
  its file: the rows of \<open>tweets\<close> and \<open>thoughts\<close>, the \<open>documents\<close> table as a map from
  the primary key \<open>id\<close> to the other columns of the row, and the tables that the
  modelled code neither reads nor writes. The rows of \<open>tweets\<close> and \<open>thoughts\<close> are the
  rows as \<open>fetchall\<close> returns them; a legacy table that cannot be read is the matter of
  \<open>fetchall\<close> in the section on the migration. The statements on \<open>documents\<close> are taken to
  name a table and columns that exist; the column \<open>indexed_at\<close> and the full-text
  mirrors, which SQLite fills by itself, are left out.
\<close>

datatype database_class = MonkDatabase | SelfDatabase

record database =
  db_class :: database_class
  tweets :: "tweet_row list"
  thoughts :: "thought_row list"
  documents :: "string \<rightharpoonup> pydict"
  other_tables :: "string \<rightharpoonup> pydict list"

text \<open>
  What \<open>sqlite3\<close> raises for a parameter that it cannot bind: a list or a dict, or an
  integer outside 64 bits.
\<close>

fun bind_error :: "pyval \<Rightarrow> error option" where
  "bind_error (PList xs) = Some InterfaceError"
| "bind_error (PDict d) = Some InterfaceError"
| "bind_error (PInt i) =
     (if - (2 ^ 63) \<le> i \<and> i < 2 ^ 63 then None else Some OverflowError)"
| "bind_error v = None"

text \<open>
  What SQLite stores for a parameter that is bound: a float that is not a number is
  stored as \<open>NULL\<close>; every other value is written here as the Python value that was
  bound. A float is its 64 bits; it is not a number when its exponent bits are all ones
  and its fraction is not zero.
\<close>

definition is_nan :: "64 word \<Rightarrow> bool" where
  "is_nan w = (unat w mod 2 ^ 63 > 2 ^ 63 - 2 ^ 52)"

fun bound_value :: "pyval \<Rightarrow> pyval" where
  "bound_value (PFloat w) = (if is_nan w then PNone else PFloat w)"
| "bound_value v = v"

text \<open>
  The body that both \<open>insert_document\<close> methods share, for the bound parameters \<open>a\<close>.
  First the tuple of statement parameters is built (\<open>json.dumps\<close> of the metadata and
  of the tags when they are truthy, \<open>created_at or datetime.now()\<close>), then
  \<open>INSERT OR REPLACE\<close> runs on the \<open>columns\<close> of the class's statement: a parameter
  that cannot be bound and a \<open>NULL\<close> in a \<open>NOT NULL\<close> column raise. \<open>statement_row\<close> is
  the row that the statement writes, with the parameters as they are bound, or the
  exception; \<open>store_document\<close> puts the row in place of the one with the same \<open>id\<close>, if
  any.
\<close>

definition statement_row :: "pylib \<Rightarrow> string list \<Rightarrow> string list \<Rightarrow> pydict \<Rightarrow> error + pydict" where
  "statement_row E columns not_null a =
     (case (if py_truthy (arg a ''metadata'')
            then (case json_dumps E (arg a ''metadata'') of
                    None \<Rightarrow> Inl TypeError | Some s \<Rightarrow> Inr (PStr s))
            else Inr PNone) of
        Inl e \<Rightarrow> Inl e
      | Inr metadata_json \<Rightarrow>
          (case (if py_truthy (arg a ''tags'')
                 then (case json_dumps E (arg a ''tags'') of
                         None \<Rightarrow> Inl TypeError | Some s \<Rightarrow> Inr (PStr s))
                 else Inr PNone) of
             Inl e \<Rightarrow> Inl e
           | Inr tags_json \<Rightarrow>
               let created = (if py_truthy (arg a ''created_at'') then arg a ''created_at''
                              else PDatetime (now E));
                   params = dict_set (dict_set (dict_set a ''metadata'' metadata_json)
                                        ''tags'' tags_json) ''created_at'' created;
                   row = map (\<lambda>c. (c, bound_value (arg params c))) columns
               in case List.find (\<lambda>v. bind_error v \<noteq> None) (map snd row) of
                    Some v \<Rightarrow> Inl (case bind_error v of Some e \<Rightarrow> e | None \<Rightarrow> InterfaceError)
                  | None \<Rightarrow>
                      if list_ex (\<lambda>c. bound_value (arg params c) = PNone) not_null
                      then Inl IntegrityError
                      else Inr row))"

definition store_document ::
  "pylib \<Rightarrow> database \<Rightarrow> string \<Rightarrow> string list \<Rightarrow> string list \<Rightarrow> pydict \<Rightarrow> error + database" where
  "store_document E db doc_id columns not_null a =
     (case statement_row E columns not_null a of
        Inl e \<Rightarrow> Inl e
      | Inr row \<Rightarrow> Inr (db\<lparr> documents := (documents db)(doc_id \<mapsto> row) \<rparr>))"

text \<open>
  \<open>insert_document\<close>, called with \<open>doc_id\<close> and the other arguments by keyword. The
  method of \<open>proof_of_monk\<close> has the parameters \<open>source_type\<close>, \<open>content\<close>,
  \<open>content_type\<close>, \<open>title\<close>, \<open>metadata\<close>, \<open>tags\<close>, \<open>source_path\<close> and \<open>created_at\<close>; the one of
  \<open>proof_of_self\<close> has \<open>author\<close> and \<open>is_chunked\<close> as well.
\<close>

definition insert_document :: "pylib \<Rightarrow> database \<Rightarrow> string \<Rightarrow> pydict \<Rightarrow> error + database" where
  "insert_document E db doc_id kwargs =
     (case db_class db of
        MonkDatabase \<Rightarrow>
          (case call_keywords [''source_type'', ''content'']
                  [(''content_type'', PNone), (''title'', PNone), (''metadata'', PNone),
                   (''tags'', PNone), (''source_path'', PNone), (''created_at'', PNone)] kwargs of
             Inl e \<Rightarrow> Inl e
           | Inr a \<Rightarrow>
               store_document E db doc_id
                 [''source_type'', ''content_type'', ''title'', ''content'', ''metadata'',
                  ''tags'', ''source_path'', ''created_at'']
                 [''source_type'', ''content''] a)
      | SelfDatabase \<Rightarrow>
          (case call_keywords [''source_type'', ''content'']
                  [(''content_type'', PNone), (''title'', PNone), (''author'', PNone),
                   (''is_chunked'', PBool False), (''metadata'', PNone), (''tags'', PNone),
                   (''source_path'', PNone), (''created_at'', PNone)] kwargs of
             Inl e \<Rightarrow> Inl e
           | Inr a \<Rightarrow>
               store_document E db doc_id
                 [''source_type'', ''content_type'', ''title'', ''author'', ''content'',
                  ''source_path'', ''is_chunked'', ''metadata'', ''tags'', ''created_at'']
                 [''source_type''] a))"

section \<open>core/migrate.py\<close>

text \<open>
  The counters \<open>total\<close>, \<open>migrated\<close>, \<open>skipped\<close> and \<open>errors\<close> that the two migrations
  return.
\<close>

record stats =
  stat_total :: int
  stat_migrated :: int
  stat_skipped :: int
  stat_errors :: int

text \<open>
  How the \<open>try\<close> block of one loop iteration ends when it raises nothing: at \<open>continue\<close>
  after \<open>skipped += 1\<close>, or at its end after \<open>migrated += 1\<close>.
\<close>

datatype outcome = Skipped | Migrated

text \<open>
  The \<open>try\<close> block of the loop of \<open>migrate_tweets_to_documents\<close> for one row, up to the
  counter: \<open>Inl\<close> is the exception that it raises. The store changes only in
  \<open>insert_document\<close>, the last statement that can raise.
\<close>

definition migrate_tweet ::
  "pylib \<Rightarrow> bool \<Rightarrow> database \<Rightarrow> tweet_row \<Rightarrow> error + outcome \<times> database" where
  "migrate_tweet E dry_run db row =
     (let tweet_id = tw_tweet_id row;
          user_id = tw_user_id row;
          created_at = tw_created_at row;
          full_text = tw_full_text row;
          reply_to_tweet_id = tw_reply_to_tweet_id row;
          reply_to_user = tw_reply_to_user row;
          retweet_count = tw_retweet_count row;
          favorite_count = tw_favorite_count row;
          is_retweet = tw_is_retweet row;
          is_reply = tw_is_reply row;
          entities_json = tw_entities row;
          source_path = ''twitter://'' @ py_format E user_id @ ''/'' @ py_format E tweet_id
      in
      case (if py_truthy entities_json then py_json_loads E entities_json else Inr PNone) of
        Inl e \<Rightarrow> Inl e
      | Inr entities \<Rightarrow>
      case generate_document_id_any E full_text (PStr source_path) created_at of
        Inl e \<Rightarrow> Inl e
      | Inr doc_id \<Rightarrow>
      if documents db doc_id \<noteq> None then Inr (Skipped, db)
      else
      case (if py_truthy entities
            then (case py_contains ''hashtags'' entities of
                    Inl e \<Rightarrow> Inl e
                  | Inr has \<Rightarrow> if has then py_getitem entities ''hashtags'' else Inr (PList []))
            else Inr (PList [])) of
        Inl e \<Rightarrow> Inl e
      | Inr tags \<Rightarrow>
      let metadata0 =
            [(''tweet_id'', tweet_id),
             (''username'', user_id),
             (''retweet_count'', retweet_count),
             (''favorite_count'', favorite_count),
             (''is_retweet'', PBool (py_truthy is_retweet)),
             (''is_reply'', PBool (py_truthy is_reply))];
          metadata1 = (if py_truthy reply_to_tweet_id
                       then dict_set metadata0 ''reply_to_tweet_id'' reply_to_tweet_id
                       else metadata0);
          metadata2 = (if py_truthy reply_to_user
                       then dict_set metadata1 ''reply_to_user'' reply_to_user
                       else metadata1);
          metadata3 = (if py_truthy entities
                       then dict_set metadata2 ''entities'' entities
                       else metadata2);
          content_type = (if py_truthy is_retweet then ''retweet''
                          else if py_truthy is_reply then ''reply''
                          else ''tweet'')
      in
      case (case created_at of
              PStr s \<Rightarrow>
                (case py_fromisoformat E (replace_Z s) of
                   Inl e \<Rightarrow> Inl e | Inr d \<Rightarrow> Inr (PDatetime d))
            | _ \<Rightarrow> Inr created_at) of
        Inl e \<Rightarrow> Inl e
      | Inr created_at_dt \<Rightarrow>
      if \<not> dry_run then
        (case insert_document E db doc_id
                [(''source_type'', PStr ''twitter''),
                 (''content_type'', PStr content_type),
                 (''title'', PNone),
                 (''author'', user_id),
                 (''content'', full_text),
                 (''source_path'', PStr source_path),
                 (''is_chunked'', PBool False),
                 (''metadata'', PDict metadata3),
                 (''tags'', tags),
                 (''created_at'', created_at_dt)] of
           Inl e \<Rightarrow> Inl e
         | Inr db' \<Rightarrow> Inr (Migrated, db'))
      else Inr (Migrated, db))"

text \<open>
  The loop \<open>for row in tweets\<close> with its \<open>try\<close> and \<open>except Exception\<close>: the handler logs
  the exception and adds one to \<open>errors\<close>. The handler formats \<open>tweet_id\<close>, which the
  first statement of the \<open>try\<close> block has bound, and \<open>e\<close>; it raises nothing.
\<close>

fun migrate_tweets_loop ::
  "pylib \<Rightarrow> bool \<Rightarrow> tweet_row list \<Rightarrow> stats \<Rightarrow> database \<Rightarrow> stats \<times> database" where
  "migrate_tweets_loop E dry_run [] st db = (st, db)"
| "migrate_tweets_loop E dry_run (row # rows) st db =
     (case migrate_tweet E dry_run db row of
        Inl e \<Rightarrow> migrate_tweets_loop E dry_run rows (st\<lparr> stat_errors := stat_errors st + 1 \<rparr>) db
      | Inr (Skipped, db') \<Rightarrow>
          migrate_tweets_loop E dry_run rows (st\<lparr> stat_skipped := stat_skipped st + 1 \<rparr>) db'
      | Inr (Migrated, db') \<Rightarrow>
          migrate_tweets_loop E dry_run rows (st\<lparr> stat_migrated := stat_migrated st + 1 \<rparr>) db')"

text \<open>
  \<open>migrate_tweets_to_documents\<close> from \<open>total = len(tweets)\<close> on, for the rows \<open>tweets db\<close>
  that \<open>fetchall\<close> has returned: the counters, the loop and the returned stats, with the
  store that the call leaves. The \<open>SELECT\<close> and \<open>fetchall\<close> before it, which can raise,
  are added in \<open>DataMigration_migrate_tweets_to_documents\<close> below.
\<close>

definition migrate_tweets_to_documents :: "pylib \<Rightarrow> bool \<Rightarrow> database \<Rightarrow> stats \<times> database" where
  "migrate_tweets_to_documents E dry_run db =
     migrate_tweets_loop E dry_run (tweets db)
       \<lparr> stat_total = int (length (tweets db)), stat_migrated = 0, stat_skipped = 0,
         stat_errors = 0 \<rparr> db"

text \<open>The same for one row of \<open>thoughts\<close>.\<close>

definition migrate_thought ::
  "pylib \<Rightarrow> bool \<Rightarrow> database \<Rightarrow> thought_row \<Rightarrow> error + outcome \<times> database" where
  "migrate_thought E dry_run db row =
     (let thought_id = th_id row;
          content_value = th_content row;
          tags_json = th_tags row;
          category = th_category row;
          created_at = th_created_at row;
          updated_at = th_updated_at row;
          source_path = ''thought://'' @ py_format E thought_id
      in
      case (if py_truthy tags_json then py_json_loads E tags_json else Inr (PList [])) of
        Inl e \<Rightarrow> Inl e
      | Inr tags \<Rightarrow>
      case generate_document_id_any E content_value (PStr source_path) created_at of
        Inl e \<Rightarrow> Inl e
      | Inr doc_id \<Rightarrow>
      if documents db doc_id \<noteq> None then Inr (Skipped, db)
      else
      let metadata0 =
            [(''thought_id'', thought_id),
             (''category'', category),
             (''updated_at'', updated_at)]
      in
      case (case created_at of
              PStr s \<Rightarrow>
                (case py_fromisoformat E s of
                   Inl e \<Rightarrow> Inl e | Inr d \<Rightarrow> Inr (PDatetime d))
            | _ \<Rightarrow> Inr created_at) of
        Inl e \<Rightarrow> Inl e
      | Inr created_at_dt \<Rightarrow>
      if \<not> dry_run then
        (case insert_document E db doc_id
                [(''source_type'', PStr ''user''),
                 (''content_type'', PStr ''note''),
                 (''title'', PNone),
                 (''author'', PNone),
                 (''content'', content_value),
                 (''source_path'', PStr source_path),
                 (''is_chunked'', PBool False),
                 (''metadata'', PDict metadata0),
                 (''tags'', tags),
                 (''created_at'', created_at_dt)] of
           Inl e \<Rightarrow> Inl e
         | Inr db' \<Rightarrow> Inr (Migrated, db'))
      else Inr (Migrated, db))"

fun migrate_thoughts_loop ::
  "pylib \<Rightarrow> bool \<Rightarrow> thought_row list \<Rightarrow> stats \<Rightarrow> database \<Rightarrow> stats \<times> database" where
  "migrate_thoughts_loop E dry_run [] st db = (st, db)"
| "migrate_thoughts_loop E dry_run (row # rows) st db =
     (case migrate_thought E dry_run db row of
        Inl e \<Rightarrow> migrate_thoughts_loop E dry_run rows (st\<lparr> stat_errors := stat_errors st + 1 \<rparr>) db
      | Inr (Skipped, db') \<Rightarrow>
          migrate_thoughts_loop E dry_run rows (st\<lparr> stat_skipped := stat_skipped st + 1 \<rparr>) db'
      | Inr (Migrated, db') \<Rightarrow>
          migrate_thoughts_loop E dry_run rows (st\<lparr> stat_migrated := stat_migrated st + 1 \<rparr>) db')"

text \<open>
  \<open>migrate_thoughts_to_documents\<close> from \<open>total = len(thoughts)\<close> on, for the rows
  \<open>thoughts db\<close> that \<open>fetchall\<close> has returned.
\<close>

definition migrate_thoughts_to_documents :: "pylib \<Rightarrow> bool \<Rightarrow> database \<Rightarrow> stats \<times> database" where
  "migrate_thoughts_to_documents E dry_run db =
     migrate_thoughts_loop E dry_run (thoughts db)
       \<lparr> stat_total = int (length (thoughts db)), stat_migrated = 0, stat_skipped = 0,
         stat_errors = 0 \<rparr> db"

text \<open>
  \<open>run_full_migration\<close>: the tweets, then the thoughts on the store that the first
  migration leaves, and the summary, for legacy rows that \<open>fetchall\<close> has returned.
\<close>

record migration_results =
  res_tweets :: stats
  res_thoughts :: stats
  total_migrated :: int
  total_errors :: int
  summary_dry_run :: bool

definition run_full_migration :: "pylib \<Rightarrow> bool \<Rightarrow> database \<Rightarrow> migration_results \<times> database" where
  "run_full_migration E dry_run db =
     (let (tweet_stats, db1) = migrate_tweets_to_documents E dry_run db;
          (thought_stats, db2) = migrate_thoughts_to_documents E dry_run db1
      in (\<lparr> res_tweets = tweet_stats,
            res_thoughts = thought_stats,
            total_migrated = stat_migrated tweet_stats + stat_migrated thought_stats,
            total_errors = stat_errors tweet_stats + stat_errors thought_stats,
            summary_dry_run = dry_run \<rparr>, db2))"

subsection \<open>The statements before the loop\<close>

text \<open>
  Both methods begin with a \<open>SELECT\<close> on the legacy table and \<open>cursor.fetchall()\<close>,
  before the loop and outside every \<open>try\<close>. SQLite does not check that a \<open>TEXT\<close> value is
  UTF-8, and \<open>sqlite3\<close> decodes every \<open>TEXT\<close> value that it fetches: a row with a \<open>TEXT\<close>
  value that is not UTF-8 makes \<open>fetchall\<close> raise \<open>OperationalError\<close>, and the \<open>SELECT\<close>
  raises it for a table or a column that the file does not have. A row as the file
  holds it is the row of Python values that \<open>fetchall\<close> returns for it, or it is
  undecodable; a legacy table is its rows in order, or \<open>None\<close> when the \<open>SELECT\<close> names what
  the file does not have.
\<close>

datatype 'r stored = Decodable 'r | Undecodable

fun fetch_rows :: "'r stored list \<Rightarrow> error + 'r list" where
  "fetch_rows [] = Inr []"
| "fetch_rows (Undecodable # rest) = Inl OperationalError"
| "fetch_rows (Decodable row # rest) =
     (case fetch_rows rest of
        Inl e \<Rightarrow> Inl e
      | Inr rows \<Rightarrow> Inr (row # rows))"

fun fetchall :: "'r stored list option \<Rightarrow> error + 'r list" where
  "fetchall None = Inl OperationalError"
| "fetchall (Some table) = fetch_rows table"

text \<open>
  The whole methods \<open>DataMigration.migrate_tweets_to_documents\<close> and
  \<open>DataMigration.migrate_thoughts_to_documents\<close>, for the legacy table as the file holds
  it and the \<open>Database\<close> object: \<open>fetchall\<close>, \<open>total = len(...)\<close>, the counters at zero and
  the loop. The result is the returned stats, or the exception that leaves the method,
  and the store as the call leaves it. The loop reads the rows that were fetched; of
  \<open>db\<close> it reads and writes \<open>documents\<close> only.
\<close>

definition DataMigration_migrate_tweets_to_documents ::
  "pylib \<Rightarrow> bool \<Rightarrow> tweet_row stored list option \<Rightarrow> database \<Rightarrow> (error + stats) \<times> database" where
  "DataMigration_migrate_tweets_to_documents E dry_run table db =
     (case fetchall table of
        Inl e \<Rightarrow> (Inl e, db)
      | Inr fetched \<Rightarrow>
          let (st, db') =
                migrate_tweets_loop E dry_run fetched
                  \<lparr> stat_total = int (length fetched), stat_migrated = 0, stat_skipped = 0,
                    stat_errors = 0 \<rparr> db
          in (Inr st, db'))"

definition DataMigration_migrate_thoughts_to_documents ::
  "pylib \<Rightarrow> bool \<Rightarrow> thought_row stored list option \<Rightarrow> database \<Rightarrow> (error + stats) \<times> database" where
  "DataMigration_migrate_thoughts_to_documents E dry_run table db =
     (case fetchall table of
        Inl e \<Rightarrow> (Inl e, db)
      | Inr fetched \<Rightarrow>
          let (st, db') =
                migrate_thoughts_loop E dry_run fetched
                  \<lparr> stat_total = int (length fetched), stat_migrated = 0, stat_skipped = 0,
                    stat_errors = 0 \<rparr> db
          in (Inr st, db'))"

section \<open>core/indexer.py\<close>

text \<open>
  An adapter, as \<open>index_from_adapter\<close> sees it: the name of its class, what
  \<open>validate_source()\<close> returns, and the records that iterating \<open>parse()\<close> yields one by one.
\<close>

record adapter =
  adapter_class :: string
  validate_source :: bool
  parse :: "pydict list"

record index_counts =
  count_documents :: int
  count_errors :: int

text \<open>\<open>record.get(key, default)\<close>.\<close>

definition dict_get :: "pydict \<Rightarrow> string \<Rightarrow> pyval \<Rightarrow> pyval" where
  "dict_get d key dflt = (case map_of d key of None \<Rightarrow> dflt | Some v \<Rightarrow> v)"

text \<open>
  \<open>_index_document\<close>: \<open>record["content"]\<close> raises \<open>KeyError\<close> when the key is missing, and
  \<open>created_at.isoformat()\<close> raises \<open>AttributeError\<close> on a truthy value that is not a
  datetime.
\<close>

definition index_document :: "pylib \<Rightarrow> database \<Rightarrow> pydict \<Rightarrow> error + database" where
  "index_document E db rec =
     (case map_of rec ''content'' of
        None \<Rightarrow> Inl KeyError
      | Some content_value \<Rightarrow>
          let source_path = dict_get rec ''source_path'' (PStr []);
              created_at = dict_get rec ''created_at'' PNone
          in
          case (if py_truthy created_at
                then (case created_at of
                        PDatetime d \<Rightarrow> Inr (isoformat E d)
                      | _ \<Rightarrow> Inl AttributeError)
                else Inr []) of
            Inl e \<Rightarrow> Inl e
          | Inr created_at_str \<Rightarrow>
              (case generate_document_id_any E content_value source_path (PStr created_at_str) of
                 Inl e \<Rightarrow> Inl e
               | Inr doc_id \<Rightarrow>
                   insert_document E db doc_id
                     [(''source_type'', dict_get rec ''source_type'' (PStr ''unknown'')),
                      (''content_type'', dict_get rec ''content_type'' PNone),
                      (''title'', dict_get rec ''title'' PNone),
                      (''author'', dict_get rec ''author'' PNone),
                      (''content'', content_value),
                      (''source_path'', source_path),
                      (''is_chunked'', PBool False),
                      (''metadata'', dict_get rec ''metadata'' PNone),
                      (''tags'', dict_get rec ''tags'' PNone),
                      (''created_at'', created_at)]))"

text \<open>
  The loop \<open>for record in adapter.parse()\<close>: a record of type \<open>"document"\<close> is indexed and
  counted, any other one is counted as an error, and so is an exception.
\<close>

fun index_records ::
  "pylib \<Rightarrow> pydict list \<Rightarrow> index_counts \<Rightarrow> database \<Rightarrow> index_counts \<times> database" where
  "index_records E [] counts db = (counts, db)"
| "index_records E (rec # rest) counts db =
     (if dict_get rec ''type'' PNone = PStr ''document'' then
        (case index_document E db rec of
           Inl e \<Rightarrow> index_records E rest (counts\<lparr> count_errors := count_errors counts + 1 \<rparr>) db
         | Inr db' \<Rightarrow>
             index_records E rest (counts\<lparr> count_documents := count_documents counts + 1 \<rparr>) db')
      else index_records E rest (counts\<lparr> count_errors := count_errors counts + 1 \<rparr>) db)"

text \<open>
  \<open>index_from_adapter\<close>. The result is what the call returns or raises, the store after
  it, and the number of records that it has taken from \<open>adapter.parse()\<close>.
\<close>

definition index_from_adapter ::
  "pylib \<Rightarrow> database \<Rightarrow> adapter \<Rightarrow> (error + index_counts) \<times> database \<times> nat" where
  "index_from_adapter E db a =
     (if \<not> validate_source a then (Inl ValueError, db, 0)
      else
        let (counts, db') =
              index_records E (parse a) \<lparr> count_documents = 0, count_errors = 0 \<rparr> db
        in (Inr counts, db', length (parse a)))"

section \<open>The migration of one row, split for the proofs\<close>

text \<open>
  The \<open>try\<close> block of either migration reads the store once, at the probe, and writes it
  once, in \<open>insert_document\<close>; everything else is computed from the row. The proofs use
  this split. The derivation of a row is the exception that the block raises before the
  probe, or the document id together with what the statements between the probe and
  the insert give: an exception, or the keyword arguments of \<open>insert_document\<close>.
  \<open>migrate_step\<close> is the rest of the block, and \<open>migrate_loop\<close> the loop over derivations.
  \<open>migrate_tweet_step\<close> and \<open>migrate_thought_step\<close> below prove that the two \<open>try\<close> blocks
  are these.
\<close>

type_synonym derivation = "error + string \<times> (error + pydict)"

definition tweet_derivation :: "pylib \<Rightarrow> tweet_row \<Rightarrow> derivation" where
  "tweet_derivation E row =
     (let source_path = ''twitter://'' @ py_format E (tw_user_id row) @ ''/'' @
                        py_format E (tw_tweet_id row)
      in
      case (if py_truthy (tw_entities row) then py_json_loads E (tw_entities row)
            else Inr PNone) of
        Inl e \<Rightarrow> Inl e
      | Inr entities \<Rightarrow>
      case generate_document_id_any E (tw_full_text row) (PStr source_path) (tw_created_at row) of
        Inl e \<Rightarrow> Inl e
      | Inr doc_id \<Rightarrow>
          Inr (doc_id,
            case (if py_truthy entities
                  then (case py_contains ''hashtags'' entities of
                          Inl e \<Rightarrow> Inl e
                        | Inr has \<Rightarrow>
                            if has then py_getitem entities ''hashtags'' else Inr (PList []))
                  else Inr (PList [])) of
              Inl e \<Rightarrow> Inl e
            | Inr tags \<Rightarrow>
            let metadata0 =
                  [(''tweet_id'', tw_tweet_id row),
                   (''username'', tw_user_id row),
                   (''retweet_count'', tw_retweet_count row),
                   (''favorite_count'', tw_favorite_count row),
                   (''is_retweet'', PBool (py_truthy (tw_is_retweet row))),
                   (''is_reply'', PBool (py_truthy (tw_is_reply row)))];
                metadata1 = (if py_truthy (tw_reply_to_tweet_id row)
                             then dict_set metadata0 ''reply_to_tweet_id'' (tw_reply_to_tweet_id row)
                             else metadata0);
                metadata2 = (if py_truthy (tw_reply_to_user row)
                             then dict_set metadata1 ''reply_to_user'' (tw_reply_to_user row)
                             else metadata1);
                metadata3 = (if py_truthy entities
                             then dict_set metadata2 ''entities'' entities
                             else metadata2);
                content_type = (if py_truthy (tw_is_retweet row) then ''retweet''
                                else if py_truthy (tw_is_reply row) then ''reply''
                                else ''tweet'')
            in
            case (case tw_created_at row of
                    PStr s \<Rightarrow>
                      (case py_fromisoformat E (replace_Z s) of
                         Inl e \<Rightarrow> Inl e | Inr d \<Rightarrow> Inr (PDatetime d))
                  | _ \<Rightarrow> Inr (tw_created_at row)) of
              Inl e \<Rightarrow> Inl e
            | Inr created_at_dt \<Rightarrow>
                Inr [(''source_type'', PStr ''twitter''),
                     (''content_type'', PStr content_type),
                     (''title'', PNone),
                     (''author'', tw_user_id row),
                     (''content'', tw_full_text row),
                     (''source_path'', PStr source_path),
                     (''is_chunked'', PBool False),
                     (''metadata'', PDict metadata3),
                     (''tags'', tags),
                     (''created_at'', created_at_dt)]))"

definition thought_derivation :: "pylib \<Rightarrow> thought_row \<Rightarrow> derivation" where
  "thought_derivation E row =
     (let source_path = ''thought://'' @ py_format E (th_id row)
      in
      case (if py_truthy (th_tags row) then py_json_loads E (th_tags row) else Inr (PList [])) of
        Inl e \<Rightarrow> Inl e
      | Inr tags \<Rightarrow>
      case generate_document_id_any E (th_content row) (PStr source_path) (th_created_at row) of
        Inl e \<Rightarrow> Inl e
      | Inr doc_id \<Rightarrow>
          Inr (doc_id,
            case (case th_created_at row of
                    PStr s \<Rightarrow>
                      (case py_fromisoformat E s of
                         Inl e \<Rightarrow> Inl e | Inr d \<Rightarrow> Inr (PDatetime d))
                  | _ \<Rightarrow> Inr (th_created_at row)) of
              Inl e \<Rightarrow> Inl e
            | Inr created_at_dt \<Rightarrow>
                Inr [(''source_type'', PStr ''user''),
                     (''content_type'', PStr ''note''),
                     (''title'', PNone),
                     (''author'', PNone),
                     (''content'', th_content row),
                     (''source_path'', PStr source_path),
                     (''is_chunked'', PBool False),
                     (''metadata'', PDict [(''thought_id'', th_id row),
                                           (''category'', th_category row),
                                           (''updated_at'', th_updated_at row)]),
                     (''tags'', tags),
                     (''created_at'', created_at_dt)]))"

definition migrate_step ::
  "pylib \<Rightarrow> bool \<Rightarrow> database \<Rightarrow> derivation \<Rightarrow> error + outcome \<times> database" where
  "migrate_step E dry_run db d =
     (case d of
        Inl e \<Rightarrow> Inl e
      | Inr (doc_id, rest) \<Rightarrow>
          if documents db doc_id \<noteq> None then Inr (Skipped, db)
          else
            (case rest of
               Inl e \<Rightarrow> Inl e
             | Inr kwargs \<Rightarrow>
                 if \<not> dry_run then
                   (case insert_document E db doc_id kwargs of
                      Inl e \<Rightarrow> Inl e
                    | Inr db' \<Rightarrow> Inr (Migrated, db'))
                 else Inr (Migrated, db)))"

fun migrate_loop ::
  "pylib \<Rightarrow> bool \<Rightarrow> derivation list \<Rightarrow> stats \<Rightarrow> database \<Rightarrow> stats \<times> database" where
  "migrate_loop E dry_run [] st db = (st, db)"
| "migrate_loop E dry_run (d # ds) st db =
     (case migrate_step E dry_run db d of
        Inl e \<Rightarrow> migrate_loop E dry_run ds (st\<lparr> stat_errors := stat_errors st + 1 \<rparr>) db
      | Inr (Skipped, db') \<Rightarrow>
          migrate_loop E dry_run ds (st\<lparr> stat_skipped := stat_skipped st + 1 \<rparr>) db'
      | Inr (Migrated, db') \<Rightarrow>
          migrate_loop E dry_run ds (st\<lparr> stat_migrated := stat_migrated st + 1 \<rparr>) db')"

text \<open>
  What the \<open>try\<close> block does at each row of a batch, in order: the exception that it
  raises or the way it ends, each row on the store that the rows before it have left.
  \<open>tally\<close> is the stats that count a list of these: one for each row under \<open>total\<close>, and
  the exceptions, the skips and the migrations under their keys.
\<close>

fun outcomes ::
  "(database \<Rightarrow> 'r \<Rightarrow> error + outcome \<times> database) \<Rightarrow> 'r list \<Rightarrow> database \<Rightarrow>
   (error + outcome) list" where
  "outcomes step [] db = []"
| "outcomes step (row # rows) db =
     (case step db row of
        Inl e \<Rightarrow> Inl e # outcomes step rows db
      | Inr (oc, db') \<Rightarrow> Inr oc # outcomes step rows db')"

definition tally :: "(error + outcome) list \<Rightarrow> stats" where
  "tally os =
     \<lparr> stat_total = int (length os),
       stat_migrated = int (length (filter (\<lambda>oc. oc = Inr Migrated) os)),
       stat_skipped = int (length (filter (\<lambda>oc. oc = Inr Skipped) os)),
       stat_errors = int (length (filter isl os)) \<rparr>"


section \<open>Example rows and stores\<close>

text \<open>
  Rows for the concrete runs below: a tweet whose \<open>created_at\<close> holds the date in the
  format of the Twitter archive, which \<open>datetime.fromisoformat\<close> does not read; a thought
  whose \<open>created_at\<close> is not a date; a thought whose \<open>created_at\<close> is \<open>NULL\<close>; and the store
  of a class with given legacy rows and no document.
\<close>

definition tweet_with_twitter_date :: tweet_row where
  "tweet_with_twitter_date =
     \<lparr> tw_tweet_id = PStr ''1'', tw_user_id = PStr ''alice'',
       tw_created_at = PStr ''Wed Oct 10 20:19:24 +0000 2018'', tw_full_text = PStr ''hello'',
       tw_reply_to_tweet_id = PNone, tw_reply_to_user = PNone, tw_retweet_count = PInt 0,
       tw_favorite_count = PInt 0, tw_is_retweet = PInt 0, tw_is_reply = PInt 0,
       tw_entities = PNone \<rparr>"

definition thought_with_bad_date :: thought_row where
  "thought_with_bad_date =
     \<lparr> th_id = PInt 1, th_content = PStr ''note'', th_tags = PNone, th_category = PNone,
       th_created_at = PStr ''yesterday'', th_updated_at = PNone \<rparr>"

definition thought_without_date :: thought_row where
  "thought_without_date =
     \<lparr> th_id = PInt 2, th_content = PStr ''idea'', th_tags = PNone, th_category = PNone,
       th_created_at = PNone, th_updated_at = PNone \<rparr>"

definition legacy_store :: "database_class \<Rightarrow> tweet_row list \<Rightarrow> thought_row list \<Rightarrow> database" where
  "legacy_store cls tws ths =
     \<lparr> db_class = cls, tweets = tws, thoughts = ths, documents = Map.empty,
       other_tables = Map.empty \<rparr>"

text \<open>
  The store of a class with given legacy rows and, under each of the given ids, a
  document with no column set.
\<close>

definition legacy_store_with_documents ::
  "database_class \<Rightarrow> tweet_row list \<Rightarrow> thought_row list \<Rightarrow> string list \<Rightarrow> database" where
  "legacy_store_with_documents cls tws ths ids =
     \<lparr> db_class = cls, tweets = tws, thoughts = ths,
       documents = (\<lambda>k. if k \<in> set ids then Some [] else None),
       other_tables = Map.empty \<rparr>"

section \<open>Properties of the identity generator\<close>

lemma unique_str_take: "unique_str text sp ca = take 1000 text @ sp @ ca"
  by (simp add: unique_str_def)

text \<open>
  C2, as stated, fails: the three fields are concatenated with no separator, so the
  provenance pairs \<open>(''ab'', ''c'')\<close> and \<open>(''a'', ''bc'')\<close> give the same hashed string and
  the same id, whatever the hash function is.
\<close>

theorem generate_document_id_collision:
  "\<forall>E. (''ab'', ''c'') \<noteq> (''a'', ''bc'') \<and>
       generate_document_id E ''hello'' ''ab'' ''c'' = generate_document_id E ''hello'' ''a'' ''bc''"
  by (simp add: generate_document_id_def unique_str_def)

text \<open>
  C2, amended: the id is the digest of the concatenation of the content sample, the
  source path and the timestamp; for the same content, the hashed strings of two
  provenance pairs are equal exactly when the concatenations of source path and
  timestamp are equal. So pairs with different concatenations are hashed from
  different strings, and different pairs with the same concatenation get the same id.
\<close>

theorem generate_document_id_provenance:
  "generate_document_id E text sp1 ca1 = sha256_hexdigest E (unique_str text sp1 ca1) \<and>
   (unique_str text sp1 ca1 = unique_str text sp2 ca2 \<longleftrightarrow> sp1 @ ca1 = sp2 @ ca2) \<and>
   (sp1 @ ca1 = sp2 @ ca2 \<longrightarrow>
      generate_document_id E text sp1 ca1 = generate_document_id E text sp2 ca2)"
  by (simp add: generate_document_id_def unique_str_take)

theorem generate_document_id_provenance_witness:
  "\<forall>E. (''twitter://al'', ''ice'') \<noteq> (''twitter://alice'', '''') \<and>
       generate_document_id E ''hi'' ''twitter://al'' ''ice'' =
       generate_document_id E ''hi'' ''twitter://alice'' ''''"
proof
  fix E
  have same: "''twitter://al'' @ ''ice'' = ''twitter://alice'' @ ''''" by simp
  have "generate_document_id E ''hi'' ''twitter://al'' ''ice'' =
        generate_document_id E ''hi'' ''twitter://alice'' ''''"
    using generate_document_id_provenance
      [of E "''hi''" "''twitter://al''" "''ice''" "''twitter://alice''" "''''"] same
    by blast
  then show "(''twitter://al'', ''ice'') \<noteq> (''twitter://alice'', '''') \<and>
       generate_document_id E ''hi'' ''twitter://al'' ''ice'' =
       generate_document_id E ''hi'' ''twitter://alice'' ''''"
    by simp
qed

text \<open>
  C5: the id is a function of the first 1000 characters of the content, the source
  path and the timestamp: it is the digest of their concatenation, the content can be
  replaced by its first 1000 characters, and two contents that agree on their first
  1000 characters get the same id.
\<close>

theorem generate_document_id_prefix:
  "generate_document_id E text sp ca = sha256_hexdigest E (take 1000 text @ sp @ ca) \<and>
   generate_document_id E text sp ca = generate_document_id E (take 1000 text) sp ca \<and>
   (take 1000 text = take 1000 text' \<longrightarrow>
      generate_document_id E text sp ca = generate_document_id E text' sp ca)"
  by (simp add: generate_document_id_def unique_str_take)

theorem generate_document_id_prefix_witness:
  "\<forall>E. replicate 1000 (CHR ''a'') @ ''x'' \<noteq> replicate 1000 (CHR ''a'') @ ''y'' \<and>
       generate_document_id E (replicate 1000 (CHR ''a'') @ ''x'') ''p'' ''t'' =
       generate_document_id E (replicate 1000 (CHR ''a'') @ ''y'') ''p'' ''t''"
proof
  fix E
  have same: "take 1000 (replicate 1000 (CHR ''a'') @ ''x'') =
              take 1000 (replicate 1000 (CHR ''a'') @ ''y'')"
    by simp
  have "generate_document_id E (replicate 1000 (CHR ''a'') @ ''x'') ''p'' ''t'' =
        generate_document_id E (replicate 1000 (CHR ''a'') @ ''y'') ''p'' ''t''"
    using generate_document_id_prefix [of E "replicate 1000 (CHR ''a'') @ ''x''" "''p''" "''t''"
      "replicate 1000 (CHR ''a'') @ ''y''"] same
    by blast
  then show "replicate 1000 (CHR ''a'') @ ''x'' \<noteq> replicate 1000 (CHR ''a'') @ ''y'' \<and>
       generate_document_id E (replicate 1000 (CHR ''a'') @ ''x'') ''p'' ''t'' =
       generate_document_id E (replicate 1000 (CHR ''a'') @ ''y'') ''p'' ''t''"
    by simp
qed

section \<open>Properties of the chunker\<close>

lemma isspace_newline: "isspace newline"
  by (simp add: isspace_def newline_def)

lemma strip_eq_Nil_iff: "strip s = [] \<longleftrightarrow> (\<forall>c\<in>set s. isspace c)"
proof -
  have "strip s = [] \<longleftrightarrow> (\<forall>c\<in>set (dropWhile isspace s). isspace c)"
    by (simp add: strip_def)
  also have "\<dots> \<longleftrightarrow> (\<forall>c\<in>set s. isspace c)"
  proof
    assume a: "\<forall>c\<in>set (dropWhile isspace s). isspace c"
    show "\<forall>c\<in>set s. isspace c"
    proof (cases "dropWhile isspace s")
      case Nil
      then show ?thesis by (simp add: dropWhile_eq_Nil_conv)
    next
      case (Cons x xs)
      then have "\<not> isspace x" using hd_dropWhile [of isspace s] by auto
      moreover have "x \<in> set (dropWhile isspace s)" using Cons by simp
      ultimately show ?thesis using a by blast
    qed
  next
    assume "\<forall>c\<in>set s. isspace c"
    then show "\<forall>c\<in>set (dropWhile isspace s). isspace c"
      using set_dropWhileD by fastforce
  qed
  finally show ?thesis .
qed

lemma strip_has_nonspace: "strip s \<noteq> [] \<Longrightarrow> \<exists>c\<in>set (strip s). \<not> isspace c"
proof -
  assume ne: "strip s \<noteq> []"
  let ?t = "rev (dropWhile isspace s)"
  from ne have d: "dropWhile isspace ?t \<noteq> []" by (simp add: strip_def)
  then have "\<not> isspace (hd (dropWhile isspace ?t))" by (rule hd_dropWhile)
  moreover have "hd (dropWhile isspace ?t) \<in> set (strip s)"
    using d by (simp add: strip_def)
  ultimately show ?thesis by blast
qed

lemma re_split_pieces_subset:
  "p \<in> set (re_split m prev cur s) \<Longrightarrow> set p \<subseteq> set cur \<union> set s"
proof (induction m prev cur s rule: re_split.induct)
  case (1 m prev cur)
  then show ?case by simp
next
  case (2 m prev cur c cs)
  show ?case
  proof (cases "m prev (c # cs) = 0")
    case True
    with 2 show ?thesis by (auto simp: Let_def)
  next
    case False
    with 2 show ?thesis
      by (auto simp: Let_def dest: in_set_dropD)
  qed
qed

lemma take_within_takeWhile:
  assumes "k \<le> length (takeWhile P xs)" and "x \<in> set (take k xs)"
  shows "P x"
proof -
  have "take k xs = take k (takeWhile P xs @ dropWhile P xs)" by simp
  also have "\<dots> = take k (takeWhile P xs)" using assms(1) by (simp del: takeWhile_dropWhile_id)
  finally have "x \<in> set (takeWhile P xs)" using assms(2) by (auto dest: in_set_takeD)
  then show ?thesis by (rule set_takeWhileD [THEN conjunct2])
qed

lemma re_split_keeps_nonspace:
  "\<forall>prev s. m prev s \<le> length (takeWhile isspace s) \<Longrightarrow>
   \<exists>c\<in>set cur \<union> set s. \<not> isspace c \<Longrightarrow>
   \<exists>p\<in>set (re_split m prev cur s). \<exists>c\<in>set p. \<not> isspace c"
proof (induction m prev cur s rule: re_split.induct)
  case (1 m prev cur)
  then show ?case by simp
next
  case (2 m prev cur c cs)
  define k where "k = m prev (c # cs)"
  note m = "2.prems"(1)
  from "2.prems"(2) obtain x where x: "x \<in> set cur \<union> set (c # cs)" "\<not> isspace x" by blast
  show ?case
  proof (cases "k = 0")
    case True
    have "\<exists>c'\<in>set (c # cur) \<union> set cs. \<not> isspace c'" using x by auto
    with "2.IH"(1) [OF k_def True m] True show ?thesis
      by (simp add: k_def [symmetric])
  next
    case False
    show ?thesis
    proof (cases "x \<in> set cur")
      case True
      with x(2) False show ?thesis by (auto simp: k_def [symmetric] Let_def)
    next
      case nin: False
      with x(1) have "x \<in> set (take k (c # cs) @ drop k (c # cs))" by simp
      moreover have "x \<notin> set (take k (c # cs))"
      proof
        assume "x \<in> set (take k (c # cs))"
        moreover have "k \<le> length (takeWhile isspace (c # cs))" unfolding k_def using m by blast
        ultimately have "isspace x" by (rule take_within_takeWhile [rotated])
        with x(2) show False by simp
      qed
      ultimately have "x \<in> set (drop k (c # cs))" by (simp del: append_take_drop_id)
      moreover have "drop k (c # cs) = drop (k - 1) cs" using False by (cases k) auto
      ultimately have "\<exists>c'\<in>set [] \<union> set (drop (k - 1) cs). \<not> isspace c'" using x(2) by auto
      with "2.IH"(2) [OF k_def False m] False show ?thesis
        by (simp add: k_def [symmetric])
    qed
  qed
qed

lemma blank_line_match_le: "blank_line_match prev s \<le> length (takeWhile isspace s)"
  by (auto simp: blank_line_match_def isspace_newline Let_def split: list.splits)

lemma sentence_end_match_le: "sentence_end_match prev s \<le> length (takeWhile isspace s)"
  by (auto simp: sentence_end_match_def split: option.splits)

lemma stripped_pieces_nonempty:
  assumes "\<forall>prev s. m prev s \<le> length (takeWhile isspace s)" and "\<exists>c\<in>set text. \<not> isspace c"
  shows "map strip (filter (\<lambda>s. strip s \<noteq> []) (re_split m None [] text)) \<noteq> []"
proof -
  from re_split_keeps_nonspace [OF assms(1), of "[]" "text" None] assms(2)
  obtain p where p: "p \<in> set (re_split m None [] text)" "\<exists>c\<in>set p. \<not> isspace c" by auto
  from p(2) have "strip p \<noteq> []" by (simp add: strip_eq_Nil_iff)
  with p(1) have "p \<in> set (filter (\<lambda>s. strip s \<noteq> []) (re_split m None [] text))" by simp
  then have "filter (\<lambda>s. strip s \<noteq> []) (re_split m None [] text) \<noteq> []"
    by (metis empty_iff list.set(1))
  then show ?thesis by simp
qed

lemma stripped_pieces_all_space:
  assumes "\<forall>c\<in>set text. isspace c"
  shows "map strip (filter (\<lambda>s. strip s \<noteq> []) (re_split m None [] text)) = []"
proof -
  have "strip p = []" if "p \<in> set (re_split m None [] text)" for p
    using re_split_pieces_subset [OF that] assms by (auto simp: strip_eq_Nil_iff)
  then show ?thesis by (simp add: filter_empty_conv)
qed

lemma split_into_segments_nonempty:
  "\<exists>c\<in>set text. \<not> isspace c \<Longrightarrow> split_into_segments text \<noteq> []"
  unfolding split_into_segments_def
  by (rule stripped_pieces_nonempty) (simp_all add: blank_line_match_le)

lemma split_into_segments_all_space:
  "\<forall>c\<in>set text. isspace c \<Longrightarrow> split_into_segments text = []"
  unfolding split_into_segments_def by (rule stripped_pieces_all_space)

lemma split_into_segments_nonspace:
  "seg \<in> set (split_into_segments text) \<Longrightarrow> \<exists>c\<in>set seg. \<not> isspace c"
  by (auto simp: split_into_segments_def dest: strip_has_nonspace)

lemma split_into_sentences_nonempty:
  "\<exists>c\<in>set text. \<not> isspace c \<Longrightarrow> split_into_sentences text \<noteq> []"
  unfolding split_into_sentences_def
  by (rule stripped_pieces_nonempty) (simp_all add: sentence_end_match_le)

lemma get_overlap_content_Inl:
  "get_overlap_content E C xs = Inl e \<Longrightarrow>
   (e = ZeroDivisionError \<or> e = OverflowError) \<and> overlap_size C < 0"
  by (auto simp: get_overlap_content_def Let_def split: if_splits)

lemma create_chunk_fields:
  "chunk_index (create_chunk doc_id idx text meta) = idx"
  "content (create_chunk doc_id idx text meta) = text"
  "document_id (create_chunk doc_id idx text meta) = doc_id"
  "chunk_id (create_chunk doc_id idx text meta) = doc_id @ ''_chunk_'' @ str_of_int idx"
  by (simp_all add: create_chunk_def Let_def)

lemma add_unit_Inl:
  "add_unit E C doc_id meta sep unit st = Inl e \<Longrightarrow>
   (e = ZeroDivisionError \<or> e = OverflowError) \<and> overlap_size C < 0"
  by (auto simp: add_unit_def Let_def split: if_splits sum.splits dest: get_overlap_content_Inl)

lemma add_unit_current:
  "add_unit E C doc_id meta sep unit st = Inr st' \<Longrightarrow> st_current st' \<noteq> []"
  by (auto simp: add_unit_def Let_def split: if_splits sum.splits)

lemma add_unit_index:
  assumes "add_unit E C doc_id meta sep unit st = Inr st'"
    and "map chunk_index (st_chunks st) = map int [0..<length (st_chunks st)]"
    and "st_index st = int (length (st_chunks st))"
  shows "map chunk_index (st_chunks st') = map int [0..<length (st_chunks st')] \<and>
         st_index st' = int (length (st_chunks st'))"
  using assms
  by (auto simp: add_unit_def Let_def create_chunk_fields split: if_splits sum.splits)

lemma add_unit_created:
  assumes "add_unit E C doc_id meta sep unit st = Inr st'"
    and "\<forall>c\<in>set (st_chunks st). c = create_chunk doc_id (chunk_index c) (content c) meta"
  shows "\<forall>c\<in>set (st_chunks st'). c = create_chunk doc_id (chunk_index c) (content c) meta"
  using assms
  by (auto simp: add_unit_def Let_def create_chunk_fields split: if_splits sum.splits)

lemma chunk_sentences_Inl:
  "chunk_sentences E C doc_id meta ss st = Inl e \<Longrightarrow>
   (e = ZeroDivisionError \<or> e = OverflowError) \<and> overlap_size C < 0"
proof (induction ss arbitrary: st)
  case Nil
  then show ?case by simp
next
  case (Cons s ss)
  show ?case
  proof (cases "add_unit E C doc_id meta '' '' s st")
    case (Inl e')
    with Cons.prems have "e' = e" by simp
    with Inl show ?thesis by (auto dest: add_unit_Inl)
  next
    case (Inr st1)
    with Cons.prems have "chunk_sentences E C doc_id meta ss st1 = Inl e" by simp
    then show ?thesis by (rule Cons.IH)
  qed
qed

lemma exceeds_one_and_a_half_Inl:
  "exceeds_one_and_a_half E t c = Inl e \<Longrightarrow> e = OverflowError \<and> 2 ^ 1024 - 2 ^ 970 \<le> \<bar>c\<bar>"
  unfolding exceeds_one_and_a_half_def by (simp split: if_splits)

lemma chunk_segments_Cons_Inr:
  assumes "chunk_segments E C doc_id meta (seg # segs) st = Inr st'"
  obtains long_segment st1 where
    "(if long_segment
      then chunk_sentences E C doc_id meta (split_into_sentences seg) st
      else add_unit E C doc_id meta [newline, newline] seg st) = Inr st1"
    "chunk_segments E C doc_id meta segs st1 = Inr st'"
proof (cases "exceeds_one_and_a_half E (estimate_tokens seg) (chunk_size C)")
  case (Inl e)
  with assms show ?thesis by (simp add: Let_def)
next
  case (Inr b)
  show ?thesis
  proof (cases "if b then chunk_sentences E C doc_id meta (split_into_sentences seg) st
                else add_unit E C doc_id meta [newline, newline] seg st")
    case (Inl e)
    with assms Inr show ?thesis by (simp add: Let_def)
  next
    case st1: (Inr st1)
    with assms Inr have "chunk_segments E C doc_id meta segs st1 = Inr st'" by (simp add: Let_def)
    with st1 show ?thesis by (rule that)
  qed
qed

lemma chunk_sentences_current:
  "chunk_sentences E C doc_id meta ss st = Inr st' \<Longrightarrow> ss \<noteq> [] \<or> st_current st \<noteq> [] \<Longrightarrow>
   st_current st' \<noteq> []"
proof (induction ss arbitrary: st)
  case Nil
  then show ?case by simp
next
  case (Cons s ss)
  from Cons.prems(1) obtain st1 where
    s1: "add_unit E C doc_id meta '' '' s st = Inr st1" and
    s2: "chunk_sentences E C doc_id meta ss st1 = Inr st'"
    by (auto split: sum.splits)
  from s1 have "st_current st1 \<noteq> []" by (rule add_unit_current)
  with Cons.IH [OF s2] show ?case by simp
qed

lemma chunk_sentences_index:
  "chunk_sentences E C doc_id meta ss st = Inr st' \<Longrightarrow>
   map chunk_index (st_chunks st) = map int [0..<length (st_chunks st)] \<and>
     st_index st = int (length (st_chunks st)) \<Longrightarrow>
   map chunk_index (st_chunks st') = map int [0..<length (st_chunks st')] \<and>
     st_index st' = int (length (st_chunks st'))"
proof (induction ss arbitrary: st)
  case Nil
  then show ?case by simp
next
  case (Cons s ss)
  from Cons.prems(1) obtain st1 where
    s1: "add_unit E C doc_id meta '' '' s st = Inr st1" and
    s2: "chunk_sentences E C doc_id meta ss st1 = Inr st'"
    by (auto split: sum.splits)
  from add_unit_index [OF s1] Cons.prems(2) Cons.IH [OF s2] show ?case by blast
qed

lemma chunk_sentences_created:
  "chunk_sentences E C doc_id meta ss st = Inr st' \<Longrightarrow>
   \<forall>c\<in>set (st_chunks st). c = create_chunk doc_id (chunk_index c) (content c) meta \<Longrightarrow>
   \<forall>c\<in>set (st_chunks st'). c = create_chunk doc_id (chunk_index c) (content c) meta"
proof (induction ss arbitrary: st)
  case Nil
  then show ?case by simp
next
  case (Cons s ss)
  from Cons.prems(1) obtain st1 where
    s1: "add_unit E C doc_id meta '' '' s st = Inr st1" and
    s2: "chunk_sentences E C doc_id meta ss st1 = Inr st'"
    by (auto split: sum.splits)
  from add_unit_created [OF s1 Cons.prems(2)] Cons.IH [OF s2] show ?case by blast
qed

lemma chunk_segments_Inl:
  "chunk_segments E C doc_id meta segs st = Inl e \<Longrightarrow>
   (e = ZeroDivisionError \<and> overlap_size C < 0) \<or>
   (e = OverflowError \<and> (overlap_size C < 0 \<or> 2 ^ 1024 - 2 ^ 970 \<le> \<bar>chunk_size C\<bar>))"
proof (induction segs arbitrary: st)
  case Nil
  then show ?case by simp
next
  case (Cons seg segs)
  show ?case
  proof (cases "exceeds_one_and_a_half E (estimate_tokens seg) (chunk_size C)")
    case (Inl e')
    with Cons.prems have "e' = e" by (simp add: Let_def)
    with exceeds_one_and_a_half_Inl [OF Inl] show ?thesis by blast
  next
    case (Inr b)
    show ?thesis
    proof (cases "if b then chunk_sentences E C doc_id meta (split_into_sentences seg) st
                  else add_unit E C doc_id meta [newline, newline] seg st")
      case (Inl e')
      with Cons.prems Inr have "e' = e" by (simp add: Let_def)
      with Inl have "(e = ZeroDivisionError \<or> e = OverflowError) \<and> overlap_size C < 0"
        by (auto split: if_splits dest: add_unit_Inl chunk_sentences_Inl)
      then show ?thesis by blast
    next
      case st1: (Inr st1)
      with Cons.prems Inr have "chunk_segments E C doc_id meta segs st1 = Inl e"
        by (simp add: Let_def)
      then show ?thesis by (rule Cons.IH)
    qed
  qed
qed

lemma chunk_segments_current:
  "chunk_segments E C doc_id meta segs st = Inr st' \<Longrightarrow>
   \<forall>seg\<in>set segs. \<exists>c\<in>set seg. \<not> isspace c \<Longrightarrow>
   segs \<noteq> [] \<or> st_current st \<noteq> [] \<Longrightarrow> st_current st' \<noteq> []"
proof (induction segs arbitrary: st)
  case Nil
  then show ?case by simp
next
  case (Cons seg segs)
  from Cons.prems(1) obtain long_segment st1 where
    s1: "(if long_segment
          then chunk_sentences E C doc_id meta (split_into_sentences seg) st
          else add_unit E C doc_id meta [newline, newline] seg st) = Inr st1" and
    s2: "chunk_segments E C doc_id meta segs st1 = Inr st'"
    by (rule chunk_segments_Cons_Inr)
  from Cons.prems(2) have "split_into_sentences seg \<noteq> []"
    by (simp add: split_into_sentences_nonempty)
  with s1 have "st_current st1 \<noteq> []"
    by (auto split: if_splits dest: add_unit_current chunk_sentences_current)
  with Cons.IH [OF s2] Cons.prems(2) show ?case by simp
qed

lemma chunk_segments_index:
  "chunk_segments E C doc_id meta segs st = Inr st' \<Longrightarrow>
   map chunk_index (st_chunks st) = map int [0..<length (st_chunks st)] \<and>
     st_index st = int (length (st_chunks st)) \<Longrightarrow>
   map chunk_index (st_chunks st') = map int [0..<length (st_chunks st')] \<and>
     st_index st' = int (length (st_chunks st'))"
proof (induction segs arbitrary: st)
  case Nil
  then show ?case by simp
next
  case (Cons seg segs)
  from Cons.prems(1) obtain long_segment st1 where
    s1: "(if long_segment
          then chunk_sentences E C doc_id meta (split_into_sentences seg) st
          else add_unit E C doc_id meta [newline, newline] seg st) = Inr st1" and
    s2: "chunk_segments E C doc_id meta segs st1 = Inr st'"
    by (rule chunk_segments_Cons_Inr)
  from s1 Cons.prems(2) have
    "map chunk_index (st_chunks st1) = map int [0..<length (st_chunks st1)] \<and>
     st_index st1 = int (length (st_chunks st1))"
    by (auto split: if_splits dest: add_unit_index chunk_sentences_index)
  with Cons.IH [OF s2] show ?case by simp
qed

lemma chunk_segments_created:
  "chunk_segments E C doc_id meta segs st = Inr st' \<Longrightarrow>
   \<forall>c\<in>set (st_chunks st). c = create_chunk doc_id (chunk_index c) (content c) meta \<Longrightarrow>
   \<forall>c\<in>set (st_chunks st'). c = create_chunk doc_id (chunk_index c) (content c) meta"
proof (induction segs arbitrary: st)
  case Nil
  then show ?case by simp
next
  case (Cons seg segs)
  from Cons.prems(1) obtain long_segment st1 where
    s1: "(if long_segment
          then chunk_sentences E C doc_id meta (split_into_sentences seg) st
          else add_unit E C doc_id meta [newline, newline] seg st) = Inr st1" and
    s2: "chunk_segments E C doc_id meta segs st1 = Inr st'"
    by (rule chunk_segments_Cons_Inr)
  from s1 Cons.prems(2) have
    "\<forall>c\<in>set (st_chunks st1). c = create_chunk doc_id (chunk_index c) (content c) meta"
    by (auto split: if_splits dest: add_unit_created chunk_sentences_created)
  with Cons.IH [OF s2] show ?case by simp
qed

text \<open>
  C7: \<open>should_chunk\<close> is true exactly when the estimate \<open>len(content) // 4\<close> is greater
  than \<open>chunk_size\<close>, and when it is false \<open>chunk_document\<close> returns the empty list.
\<close>

theorem should_chunk_threshold:
  "(should_chunk C text \<longleftrightarrow> int (length text) div 4 > chunk_size C) \<and>
   (\<not> should_chunk C text \<longrightarrow> chunk_document E C doc_id text meta = Inr [])"
  by (simp add: should_chunk_def estimate_tokens_def chunk_document_def)

theorem should_chunk_threshold_witness:
  "\<forall>E. \<not> should_chunk default_chunker (''para one.'' @ [newline, newline] @ ''para two.'') \<and>
       chunk_document E default_chunker ''doc'' (''para one.'' @ [newline, newline] @ ''para two.'') None
         = Inr []"
proof
  fix E
  have small: "\<not> should_chunk default_chunker (''para one.'' @ [newline, newline] @ ''para two.'')"
    by (simp add: should_chunk_def estimate_tokens_def default_chunker_def)
  with should_chunk_threshold [of default_chunker "''para one.'' @ [newline, newline] @ ''para two.''"
      E "''doc''" None]
  show "\<not> should_chunk default_chunker (''para one.'' @ [newline, newline] @ ''para two.'') \<and>
       chunk_document E default_chunker ''doc'' (''para one.'' @ [newline, newline] @ ''para two.'') None
         = Inr []"
    by blast
qed

lemma map_of_dict_set: "map_of (dict_set d k v) = (map_of d)(k \<mapsto> v)"
  by (induction d k v rule: dict_set.induct) (auto simp: fun_eq_iff)

lemma map_of_dict_update: "map_of (dict_update d other) = map_of d ++ map_of (rev other)"
  unfolding dict_update_def
proof (induction other arbitrary: d)
  case Nil
  then show ?case by simp
next
  case (Cons kv other)
  obtain k v where kv: "kv = (k, v)" by (cases kv)
  have "map_of (fold (\<lambda>(k, v) d'. dict_set d' k v) (kv # other) d)
        = map_of (dict_set d k v) ++ map_of (rev other)"
    using Cons.IH [of "dict_set d k v"] by (simp add: kv)
  also have "\<dots> = map_of d ++ map_of (rev (kv # other))"
    by (simp add: map_of_dict_set kv map_add_upd_left fun_eq_iff map_add_def split: option.splits)
  finally show ?case .
qed

lemma dict_update_collision:
  assumes "distinct (map fst other)" and "(k, v) \<in> set other"
  shows "map_of (dict_update d other) k = Some v"
proof -
  have "distinct (map fst (rev other))" using assms(1) by (simp add: rev_map [symmetric])
  moreover have "(k, v) \<in> set (rev other)" using assms(2) by simp
  ultimately have "map_of (rev other) k = Some v" by (rule map_of_is_SomeI)
  then show ?thesis by (simp add: map_of_dict_update map_add_def)
qed

lemma create_chunk_metadata:
  "metadata (create_chunk doc_id idx text meta) =
     dict_update [(''chunk_index'', PInt idx),
                  (''token_count'', PInt (estimate_tokens text)),
                  (''char_count'', PInt (int (length text)))]
       (case meta of None \<Rightarrow> [] | Some m \<Rightarrow> m)"
  by (simp add: create_chunk_def Let_def dict_update_def split: option.splits)

lemma chunk_document_created:
  assumes "chunk_document E C doc_id text meta = Inr chunks" and "c \<in> set chunks"
  shows "c = create_chunk doc_id (chunk_index c) (content c) meta"
proof (cases "should_chunk C text")
  case False
  with assms show ?thesis by (simp add: chunk_document_def)
next
  case True
  with assms(1) obtain st where
    st: "chunk_segments E C doc_id meta (split_into_segments text)
           \<lparr> st_chunks = [], st_current = [], st_tokens = 0, st_index = 0 \<rparr> = Inr st" and
    chunks: "chunks = (if st_current st \<noteq> []
               then st_chunks st @
                    [create_chunk doc_id (st_index st) (join [newline, newline] (st_current st)) meta]
               else st_chunks st)"
    by (auto simp: chunk_document_def Let_def split: sum.splits)
  from chunk_segments_created [OF st]
  have "\<forall>c\<in>set (st_chunks st). c = create_chunk doc_id (chunk_index c) (content c) meta" by simp
  with chunks assms(2) show ?thesis
    by (auto simp: create_chunk_fields split: if_splits)
qed

text \<open>
  C1, as stated, fails: a document of 3204 spaces is over the threshold of the default
  chunker (801 estimated tokens), and it has no segment, so \<open>chunk_document\<close> returns
  the empty list.
\<close>

theorem chunk_document_whitespace_empty:
  "\<forall>E. should_chunk default_chunker (replicate 3204 (CHR '' '')) \<and>
       chunk_document E default_chunker ''doc'' (replicate 3204 (CHR '' '')) None = Inr []"
proof
  fix E
  have big: "should_chunk default_chunker (replicate 3204 (CHR '' ''))"
    by (simp add: should_chunk_def estimate_tokens_def default_chunker_def)
  have "\<forall>c\<in>set (replicate 3204 (CHR '' '')). isspace c"
    by (simp add: isspace_def)
  then have "split_into_segments (replicate 3204 (CHR '' '')) = []"
    by (rule split_into_segments_all_space)
  with big show "should_chunk default_chunker (replicate 3204 (CHR '' '')) \<and>
       chunk_document E default_chunker ''doc'' (replicate 3204 (CHR '' '')) None = Inr []"
    by (simp add: chunk_document_def)
qed

text \<open>
  C1, amended: for a document that is over the threshold, \<open>chunk_document\<close> either
  raises or returns a list of chunks whose \<open>chunk_index\<close> values are exactly
  \<open>0, 1, ..., n-1\<close> in order, and the list is non-empty exactly when the document has a
  character that is not whitespace. It raises nothing but \<open>ZeroDivisionError\<close> and
  \<open>OverflowError\<close>; the first only for a chunker with a negative \<open>overlap_size\<close>, the
  second only for a negative \<open>overlap_size\<close> or a \<open>chunk_size\<close> of magnitude
  \<open>2^1024 - 2^970\<close> or more, which does not convert to a float. So the call returns for
  every chunker whose \<open>overlap_size\<close> is not negative and whose \<open>chunk_size\<close> is below
  that bound.
\<close>

theorem chunk_document_coverage:
  assumes "should_chunk C text"
  shows "(case chunk_document E C doc_id text meta of
            Inl e \<Rightarrow>
              (e = ZeroDivisionError \<and> overlap_size C < 0) \<or>
              (e = OverflowError \<and>
                 (overlap_size C < 0 \<or> 2 ^ 1024 - 2 ^ 970 \<le> \<bar>chunk_size C\<bar>))
          | Inr chunks \<Rightarrow>
              (chunks \<noteq> [] \<longleftrightarrow> (\<exists>c\<in>set text. \<not> isspace c)) \<and>
              map chunk_index chunks = map int [0..<length chunks])"
proof (cases "chunk_segments E C doc_id meta (split_into_segments text)
           \<lparr> st_chunks = [], st_current = [], st_tokens = 0, st_index = 0 \<rparr>")
  case (Inl e)
  from chunk_segments_Inl [OF Inl]
  have "(e = ZeroDivisionError \<and> overlap_size C < 0) \<or>
        (e = OverflowError \<and> (overlap_size C < 0 \<or> 2 ^ 1024 - 2 ^ 970 \<le> \<bar>chunk_size C\<bar>))" .
  moreover have "chunk_document E C doc_id text meta = Inl e"
    using assms Inl by (simp add: chunk_document_def)
  ultimately show ?thesis by (simp only: sum.case)
next
  case (Inr st)
  let ?last = "create_chunk doc_id (st_index st) (join [newline, newline] (st_current st)) meta"
  let ?chunks = "if st_current st \<noteq> [] then st_chunks st @ [?last] else st_chunks st"
  have res: "chunk_document E C doc_id text meta = Inr ?chunks"
    using assms Inr by (simp add: chunk_document_def)
  have idx: "map chunk_index (st_chunks st) = map int [0..<length (st_chunks st)] \<and>
             st_index st = int (length (st_chunks st))"
    using chunk_segments_index [OF Inr] by simp
  then have indices: "map chunk_index ?chunks = map int [0..<length ?chunks]"
    by (simp add: create_chunk_fields)
  have nonempty: "?chunks \<noteq> [] \<longleftrightarrow> (\<exists>c\<in>set text. \<not> isspace c)"
  proof (cases "\<exists>c\<in>set text. \<not> isspace c")
    case True
    then have "split_into_segments text \<noteq> []" by (rule split_into_segments_nonempty)
    with chunk_segments_current [OF Inr] have "st_current st \<noteq> []"
      by (simp add: split_into_segments_nonspace)
    with True show ?thesis by simp
  next
    case False
    then have "split_into_segments text = []" by (simp add: split_into_segments_all_space)
    with Inr have "st = \<lparr> st_chunks = [], st_current = [], st_tokens = 0, st_index = 0 \<rparr>" by simp
    then have "?chunks = []" by simp
    with False show ?thesis by simp
  qed
  from res indices nonempty show ?thesis by simp
qed

lemma three_paragraphs_segments:
  "split_into_segments
     (''aaaa bbbb'' @ [newline, newline] @ ''cccc dddd eeee ffff'' @ [newline, newline] @ ''gg'')
   = [''aaaa bbbb'', ''cccc dddd eeee ffff'', ''gg'']"
  by (simp add: split_into_segments_def blank_line_match_def strip_def isspace_def newline_def)

lemma three_paragraphs_chunks:
  "chunk_document E \<lparr> chunk_size = 4, overlap_size = 2, min_chunk_size = 0 \<rparr> ''doc''
     (''aaaa bbbb'' @ [newline, newline] @ ''cccc dddd eeee ffff'' @ [newline, newline] @ ''gg'') None =
   Inr [create_chunk ''doc'' 0 ''aaaa bbbb'' None,
        create_chunk ''doc'' 1 (''aaaa bbbb'' @ [newline, newline] @ ''cccc dddd eeee ffff'') None,
        create_chunk ''doc'' 2
          (join [newline, newline]
            (let overlap_content =
               (if 0 < scale_by_ratio E 6 2 7
                then join '' '' (drop (6 - nat (scale_by_ratio E 6 2 7))
                  [''aaaa'', ''bbbb'', ''cccc'', ''dddd'', ''eeee'', ''ffff''])
                else [])
             in if overlap_content \<noteq> [] then [overlap_content, ''gg''] else [''gg''])) None]"
  unfolding chunk_document_def three_paragraphs_segments
  by (simp add: should_chunk_def estimate_tokens_def exceeds_one_and_a_half_def
      add_unit_def get_overlap_content_def py_split_def isspace_def Let_def newline_def
      eval_nat_numeral)

text \<open>
  The two exceptions occur. A chunker made by \<open>DocumentChunker(-10**400, 0)\<close> has
  \<open>overlap_size = 0\<close> and raises \<open>OverflowError\<close> at the first segment, and one with
  \<open>chunk_size = -1\<close> and \<open>overlap_size = -1\<close> raises \<open>ZeroDivisionError\<close> at the second
  segment of \<open>a\<close>, blank line, \<open>b\<close>.
\<close>

lemma chunk_document_raises_OverflowError:
  "chunk_document E \<lparr> chunk_size = - (10 ^ 400), overlap_size = 0, min_chunk_size = 0 \<rparr>
     ''doc'' ''a'' None = Inl OverflowError"
  by (simp add: chunk_document_def should_chunk_def estimate_tokens_def split_into_segments_def
      blank_line_match_def strip_def isspace_def exceeds_one_and_a_half_def Let_def)

lemma chunk_document_raises_ZeroDivisionError:
  "chunk_document E \<lparr> chunk_size = - 1, overlap_size = - 1, min_chunk_size = 0 \<rparr>
     ''doc'' (''a'' @ [newline, newline] @ ''b'') None = Inl ZeroDivisionError"
  by (simp add: chunk_document_def should_chunk_def estimate_tokens_def split_into_segments_def
      split_into_sentences_def blank_line_match_def sentence_end_match_def strip_def isspace_def
      newline_def exceeds_one_and_a_half_def add_unit_def get_overlap_content_def Let_def)

theorem chunk_document_coverage_witness:
  "\<forall>E. should_chunk \<lparr> chunk_size = 4, overlap_size = 2, min_chunk_size = 0 \<rparr>
         (''aaaa bbbb'' @ [newline, newline] @ ''cccc dddd eeee ffff'' @ [newline, newline] @ ''gg'') \<and>
       (\<exists>c0 c1 c2.
          chunk_document E \<lparr> chunk_size = 4, overlap_size = 2, min_chunk_size = 0 \<rparr> ''doc''
            (''aaaa bbbb'' @ [newline, newline] @ ''cccc dddd eeee ffff'' @ [newline, newline] @ ''gg'')
            None = Inr [c0, c1, c2] \<and>
          content c0 = ''aaaa bbbb'' \<and>
          content c1 = ''aaaa bbbb'' @ [newline, newline] @ ''cccc dddd eeee ffff'' \<and>
          map chunk_index [c0, c1, c2] = [0, 1, 2])"
proof
  fix E
  let ?C = "\<lparr> chunk_size = 4, overlap_size = 2, min_chunk_size = 0 \<rparr>"
  let ?doc = "''aaaa bbbb'' @ [newline, newline] @ ''cccc dddd eeee ffff'' @ [newline, newline] @ ''gg''"
  let ?c0 = "create_chunk ''doc'' 0 ''aaaa bbbb'' None"
  let ?c1 = "create_chunk ''doc'' 1 (''aaaa bbbb'' @ [newline, newline] @ ''cccc dddd eeee ffff'') None"
  obtain c2 where run: "chunk_document E ?C ''doc'' ?doc None = Inr [?c0, ?c1, c2]"
    using three_paragraphs_chunks [of E] by blast
  have big: "should_chunk ?C ?doc"
    by (simp add: should_chunk_def estimate_tokens_def)
  from chunk_document_coverage [OF big, of E "''doc''" None]
  have "map chunk_index [?c0, ?c1, c2] = map int [0..<length [?c0, ?c1, c2]]"
    unfolding run by simp
  also have "map int [0..<length [?c0, ?c1, c2]] = [0, 1, 2]"
    by (simp add: upt_rec)
  finally have indices: "map chunk_index [?c0, ?c1, c2] = [0, 1, 2]" .
  have "\<exists>c0 c1 c2.
          chunk_document E ?C ''doc'' ?doc None = Inr [c0, c1, c2] \<and>
          content c0 = ''aaaa bbbb'' \<and>
          content c1 = ''aaaa bbbb'' @ [newline, newline] @ ''cccc dddd eeee ffff'' \<and>
          map chunk_index [c0, c1, c2] = [0, 1, 2]"
    apply (rule exI [of _ ?c0], rule exI [of _ ?c1], rule exI [of _ c2])
    apply (intro conjI)
       apply (rule run)
      apply (simp only: create_chunk_fields)
     apply (simp only: create_chunk_fields)
    apply (rule indices)
    done
  with big show "should_chunk ?C ?doc \<and>
       (\<exists>c0 c1 c2.
          chunk_document E ?C ''doc'' ?doc None = Inr [c0, c1, c2] \<and>
          content c0 = ''aaaa bbbb'' \<and>
          content c1 = ''aaaa bbbb'' @ [newline, newline] @ ''cccc dddd eeee ffff'' \<and>
          map chunk_index [c0, c1, c2] = [0, 1, 2])"
    by (rule conjI)
qed

text \<open>
  C6: in every chunk that \<open>chunk_document\<close> returns, the metadata is the dict with the
  computed keys \<open>chunk_index\<close>, \<open>token_count\<close> and \<open>char_count\<close>, updated with the caller's
  metadata; a key of the caller's metadata has the caller's value in the result, also
  when it is one of the computed keys.
\<close>

theorem chunk_metadata_caller_wins:
  assumes "chunk_document E C doc_id text meta = Inr chunks" and "c \<in> set chunks"
  shows "metadata c =
           dict_update [(''chunk_index'', PInt (chunk_index c)),
                        (''token_count'', PInt (estimate_tokens (content c))),
                        (''char_count'', PInt (int (length (content c))))]
             (case meta of None \<Rightarrow> [] | Some m \<Rightarrow> m) \<and>
         (\<forall>m k v. meta = Some m \<and> distinct (map fst m) \<and> (k, v) \<in> set m \<longrightarrow>
            map_of (metadata c) k = Some v)"
proof -
  from chunk_document_created [OF assms]
  have c: "c = create_chunk doc_id (chunk_index c) (content c) meta" .
  have m: "metadata c =
           dict_update [(''chunk_index'', PInt (chunk_index c)),
                        (''token_count'', PInt (estimate_tokens (content c))),
                        (''char_count'', PInt (int (length (content c))))]
             (case meta of None \<Rightarrow> [] | Some m \<Rightarrow> m)"
    by (subst c) (simp only: create_chunk_metadata)
  show ?thesis
  proof (intro conjI allI impI)
    show "metadata c =
           dict_update [(''chunk_index'', PInt (chunk_index c)),
                        (''token_count'', PInt (estimate_tokens (content c))),
                        (''char_count'', PInt (int (length (content c))))]
             (case meta of None \<Rightarrow> [] | Some m \<Rightarrow> m)" by (rule m)
  next
    fix m' k v
    assume "meta = Some m' \<and> distinct (map fst m') \<and> (k, v) \<in> set m'"
    then show "map_of (metadata c) k = Some v"
      by (simp add: m dict_update_collision)
  qed
qed

lemma small_document_chunks:
  "chunk_document E \<lparr> chunk_size = 1, overlap_size = 0, min_chunk_size = 0 \<rparr> ''doc'' ''aaaa bbbb''
     (Some [(''chunk_index'', PStr ''mine''), (''author'', PStr ''me'')]) =
   Inr [\<lparr> chunk_id = ''doc_chunk_0'', document_id = ''doc'', chunk_index = 0,
          content = ''aaaa bbbb'',
          metadata = [(''chunk_index'', PStr ''mine''), (''token_count'', PInt 2),
                      (''char_count'', PInt 9), (''author'', PStr ''me'')] \<rparr>]"
  by (simp add: chunk_document_def should_chunk_def estimate_tokens_def split_into_segments_def
      split_into_sentences_def blank_line_match_def sentence_end_match_def strip_def isspace_def
      newline_def exceeds_one_and_a_half_def add_unit_def get_overlap_content_def create_chunk_def
      dict_update_def str_of_int_def Let_def)

theorem chunk_metadata_caller_wins_witness:
  "\<forall>E. (\<exists>c. chunk_document E \<lparr> chunk_size = 1, overlap_size = 0, min_chunk_size = 0 \<rparr> ''doc''
               ''aaaa bbbb'' (Some [(''chunk_index'', PStr ''mine''), (''author'', PStr ''me'')])
             = Inr [c] \<and>
             chunk_index c = 0 \<and>
             map_of (metadata c) ''chunk_index'' = Some (PStr ''mine'') \<and>
             map_of (metadata c) ''author'' = Some (PStr ''me''))"
proof
  fix E
  let ?meta = "[(''chunk_index'', PStr ''mine''), (''author'', PStr ''me'')]"
  let ?c = "\<lparr> chunk_id = ''doc_chunk_0'', document_id = ''doc'', chunk_index = 0,
          content = ''aaaa bbbb'',
          metadata = [(''chunk_index'', PStr ''mine''), (''token_count'', PInt 2),
                      (''char_count'', PInt 9), (''author'', PStr ''me'')] \<rparr>"
  have run: "chunk_document E \<lparr> chunk_size = 1, overlap_size = 0, min_chunk_size = 0 \<rparr> ''doc''
               ''aaaa bbbb'' (Some ?meta) = Inr [?c]"
    by (rule small_document_chunks)
  have mem: "?c \<in> set [?c]" by simp
  have d: "distinct (map fst ?meta)" by simp
  from chunk_metadata_caller_wins [OF run mem]
  have wins: "\<forall>m k v. Some ?meta = Some m \<and> distinct (map fst m) \<and> (k, v) \<in> set m \<longrightarrow>
            map_of (metadata ?c) k = Some v"
    by (rule conjunct2)
  have "map_of (metadata ?c) ''chunk_index'' = Some (PStr ''mine'')"
    using wins d by (intro wins [rule_format, of ?meta]) simp
  moreover have "map_of (metadata ?c) ''author'' = Some (PStr ''me'')"
    using wins d by (intro wins [rule_format, of ?meta]) simp
  ultimately show "\<exists>c. chunk_document E \<lparr> chunk_size = 1, overlap_size = 0, min_chunk_size = 0 \<rparr> ''doc''
               ''aaaa bbbb'' (Some ?meta) = Inr [c] \<and>
             chunk_index c = 0 \<and>
             map_of (metadata c) ''chunk_index'' = Some (PStr ''mine'') \<and>
             map_of (metadata c) ''author'' = Some (PStr ''me'')"
    using run by (intro exI [of _ ?c]) simp
qed

section \<open>Properties of the migration\<close>

lemma generate_document_id_any_str:
  "generate_document_id_any E (PStr text) (PStr sp) (PStr ca) = Inr (generate_document_id E text sp ca)"
  by (simp add: generate_document_id_any_def generate_document_id_def unique_str_def)

text \<open>
  The \<open>insert_document\<close> of \<open>proof_of_monk\<close> has no parameter \<open>author\<close>, so a call that
  gives one raises \<open>TypeError\<close> before anything is written.
\<close>

lemma monk_insert_document_author:
  "db_class db = MonkDatabase \<Longrightarrow> ''author'' \<in> set (map fst kwargs) \<Longrightarrow>
   insert_document E db doc_id kwargs = Inl TypeError"
  by (auto simp: insert_document_def call_keywords_def list_ex_iff)

lemma migrate_thought_step:
  "migrate_thought E dry_run db row = migrate_step E dry_run db (thought_derivation E row)"
proof -
  define sp where "sp = ''thought://'' @ py_format E (th_id row)"
  define J where
    "J = (if py_truthy (th_tags row) then py_json_loads E (th_tags row) else Inr (PList []))"
  define G where
    "G = generate_document_id_any E (th_content row) (PStr sp) (th_created_at row)"
  define T where
    "T = (case th_created_at row of
            PStr s \<Rightarrow>
              (case py_fromisoformat E s of
                 Inl e \<Rightarrow> Inl e | Inr d \<Rightarrow> Inr (PDatetime d))
          | _ \<Rightarrow> Inr (th_created_at row))"
  have L: "migrate_thought E dry_run db row =
     (case J of
        Inl e \<Rightarrow> Inl e
      | Inr tags \<Rightarrow>
      case G of
        Inl e \<Rightarrow> Inl e
      | Inr doc_id \<Rightarrow>
      if documents db doc_id \<noteq> None then Inr (Skipped, db)
      else
      case T of
        Inl e \<Rightarrow> Inl e
      | Inr created_at_dt \<Rightarrow>
      if \<not> dry_run then
        (case insert_document E db doc_id
                [(''source_type'', PStr ''user''),
                 (''content_type'', PStr ''note''),
                 (''title'', PNone),
                 (''author'', PNone),
                 (''content'', th_content row),
                 (''source_path'', PStr sp),
                 (''is_chunked'', PBool False),
                 (''metadata'', PDict [(''thought_id'', th_id row),
                                       (''category'', th_category row),
                                       (''updated_at'', th_updated_at row)]),
                 (''tags'', tags),
                 (''created_at'', created_at_dt)] of
           Inl e \<Rightarrow> Inl e
         | Inr db' \<Rightarrow> Inr (Migrated, db'))
      else Inr (Migrated, db))"
    unfolding migrate_thought_def Let_def J_def G_def T_def sp_def by (rule refl)
  have R: "thought_derivation E row =
     (case J of
        Inl e \<Rightarrow> Inl e
      | Inr tags \<Rightarrow>
      case G of
        Inl e \<Rightarrow> Inl e
      | Inr doc_id \<Rightarrow>
          Inr (doc_id,
            case T of
              Inl e \<Rightarrow> Inl e
            | Inr created_at_dt \<Rightarrow>
                Inr [(''source_type'', PStr ''user''),
                     (''content_type'', PStr ''note''),
                     (''title'', PNone),
                     (''author'', PNone),
                     (''content'', th_content row),
                     (''source_path'', PStr sp),
                     (''is_chunked'', PBool False),
                     (''metadata'', PDict [(''thought_id'', th_id row),
                                           (''category'', th_category row),
                                           (''updated_at'', th_updated_at row)]),
                     (''tags'', tags),
                     (''created_at'', created_at_dt)]))"
    unfolding thought_derivation_def Let_def J_def G_def T_def sp_def by (rule refl)
  show ?thesis
    unfolding L R migrate_step_def
    by (cases J; cases G; cases T) simp_all
qed

lemma migrate_tweet_step:
  "migrate_tweet E dry_run db row = migrate_step E dry_run db (tweet_derivation E row)"
proof -
  define sp where
    "sp = ''twitter://'' @ py_format E (tw_user_id row) @ ''/'' @ py_format E (tw_tweet_id row)"
  define J where
    "J = (if py_truthy (tw_entities row) then py_json_loads E (tw_entities row) else Inr PNone)"
  define G where
    "G = generate_document_id_any E (tw_full_text row) (PStr sp) (tw_created_at row)"
  define H where
    "H = (\<lambda>entities.
           if py_truthy entities
           then (case py_contains ''hashtags'' entities of
                   Inl e \<Rightarrow> Inl e
                 | Inr has \<Rightarrow> if has then py_getitem entities ''hashtags'' else Inr (PList []))
           else Inr (PList []))"
  define T where
    "T = (case tw_created_at row of
            PStr s \<Rightarrow>
              (case py_fromisoformat E (replace_Z s) of
                 Inl e \<Rightarrow> Inl e | Inr d \<Rightarrow> Inr (PDatetime d))
          | _ \<Rightarrow> Inr (tw_created_at row))"
  define K where
    "K = (\<lambda>entities tags created_at_dt.
           let metadata0 =
                 [(''tweet_id'', tw_tweet_id row),
                  (''username'', tw_user_id row),
                  (''retweet_count'', tw_retweet_count row),
                  (''favorite_count'', tw_favorite_count row),
                  (''is_retweet'', PBool (py_truthy (tw_is_retweet row))),
                  (''is_reply'', PBool (py_truthy (tw_is_reply row)))];
               metadata1 = (if py_truthy (tw_reply_to_tweet_id row)
                            then dict_set metadata0 ''reply_to_tweet_id'' (tw_reply_to_tweet_id row)
                            else metadata0);
               metadata2 = (if py_truthy (tw_reply_to_user row)
                            then dict_set metadata1 ''reply_to_user'' (tw_reply_to_user row)
                            else metadata1);
               metadata3 = (if py_truthy entities
                            then dict_set metadata2 ''entities'' entities
                            else metadata2);
               content_type = (if py_truthy (tw_is_retweet row) then ''retweet''
                               else if py_truthy (tw_is_reply row) then ''reply''
                               else ''tweet'')
           in [(''source_type'', PStr ''twitter''),
               (''content_type'', PStr content_type),
               (''title'', PNone),
               (''author'', tw_user_id row),
               (''content'', tw_full_text row),
               (''source_path'', PStr sp),
               (''is_chunked'', PBool False),
               (''metadata'', PDict metadata3),
               (''tags'', tags),
               (''created_at'', created_at_dt)])"
  have L: "migrate_tweet E dry_run db row =
     (case J of
        Inl e \<Rightarrow> Inl e
      | Inr entities \<Rightarrow>
      case G of
        Inl e \<Rightarrow> Inl e
      | Inr doc_id \<Rightarrow>
      if documents db doc_id \<noteq> None then Inr (Skipped, db)
      else
      case H entities of
        Inl e \<Rightarrow> Inl e
      | Inr tags \<Rightarrow>
      case T of
        Inl e \<Rightarrow> Inl e
      | Inr created_at_dt \<Rightarrow>
      if \<not> dry_run then
        (case insert_document E db doc_id (K entities tags created_at_dt) of
           Inl e \<Rightarrow> Inl e
         | Inr db' \<Rightarrow> Inr (Migrated, db'))
      else Inr (Migrated, db))"
    unfolding migrate_tweet_def Let_def J_def G_def H_def T_def K_def sp_def by (rule refl)
  have R: "tweet_derivation E row =
     (case J of
        Inl e \<Rightarrow> Inl e
      | Inr entities \<Rightarrow>
      case G of
        Inl e \<Rightarrow> Inl e
      | Inr doc_id \<Rightarrow>
          Inr (doc_id,
            case H entities of
              Inl e \<Rightarrow> Inl e
            | Inr tags \<Rightarrow>
            case T of
              Inl e \<Rightarrow> Inl e
            | Inr created_at_dt \<Rightarrow> Inr (K entities tags created_at_dt)))"
    unfolding tweet_derivation_def Let_def J_def G_def H_def T_def K_def sp_def by (rule refl)
  show ?thesis
  proof (cases J)
    case Inl
    then show ?thesis unfolding L R migrate_step_def by simp
  next
    case (Inr entities)
    then show ?thesis
      unfolding L R migrate_step_def
      by (cases G; cases "H entities"; cases T) simp_all
  qed
qed

lemma migrate_tweets_loop_eq:
  "migrate_tweets_loop E dry_run rows st db =
   migrate_loop E dry_run (map (tweet_derivation E) rows) st db"
  by (induction rows arbitrary: st db)
    (auto simp: migrate_tweet_step split: sum.splits outcome.splits)

lemma migrate_thoughts_loop_eq:
  "migrate_thoughts_loop E dry_run rows st db =
   migrate_loop E dry_run (map (thought_derivation E) rows) st db"
  by (induction rows arbitrary: st db)
    (auto simp: migrate_thought_step split: sum.splits outcome.splits)

lemma migrate_tweets_to_documents_loop:
  "migrate_tweets_to_documents E dry_run db =
   migrate_loop E dry_run (map (tweet_derivation E) (tweets db))
     \<lparr> stat_total = int (length (tweets db)), stat_migrated = 0, stat_skipped = 0,
       stat_errors = 0 \<rparr> db"
  by (simp add: migrate_tweets_to_documents_def migrate_tweets_loop_eq)

lemma migrate_thoughts_to_documents_loop:
  "migrate_thoughts_to_documents E dry_run db =
   migrate_loop E dry_run (map (thought_derivation E) (thoughts db))
     \<lparr> stat_total = int (length (thoughts db)), stat_migrated = 0, stat_skipped = 0,
       stat_errors = 0 \<rparr> db"
  by (simp add: migrate_thoughts_to_documents_def migrate_thoughts_loop_eq)

lemma store_document_Inr:
  "store_document E db doc_id columns not_null a = Inr db' \<Longrightarrow>
   \<exists>r. db' = db\<lparr> documents := (documents db)(doc_id \<mapsto> r) \<rparr>"
  by (auto simp: store_document_def split: sum.splits)


lemma insert_document_Inr:
  "insert_document E db doc_id kwargs = Inr db' \<Longrightarrow>
   \<exists>r. db' = db\<lparr> documents := (documents db)(doc_id \<mapsto> r) \<rparr>"
  by (auto simp: insert_document_def split: database_class.splits sum.splits
      dest: store_document_Inr)


lemma migrate_step_frame:
  assumes "migrate_step E dry_run db d = Inr (oc, db')"
  shows "db_class db' = db_class db \<and> tweets db' = tweets db \<and> thoughts db' = thoughts db \<and>
         other_tables db' = other_tables db \<and> dom (documents db) \<subseteq> dom (documents db') \<and>
         (oc = Skipped \<longrightarrow> db' = db) \<and> (dry_run \<longrightarrow> db' = db)"
  using assms
  by (auto simp: migrate_step_def split: sum.splits prod.splits if_splits
      dest!: insert_document_Inr)




lemma migrate_loop_frame:
  "migrate_loop E dry_run ds st db = (st', db') \<Longrightarrow>
   db_class db' = db_class db \<and> tweets db' = tweets db \<and> thoughts db' = thoughts db \<and>
   other_tables db' = other_tables db \<and> dom (documents db) \<subseteq> dom (documents db') \<and>
   (dry_run \<longrightarrow> db' = db)"
proof (induction ds arbitrary: st db)
  case Nil
  then show ?case by simp
next
  case (Cons d ds)
  show ?case
  proof (cases "migrate_step E dry_run db d")
    case (Inl e)
    with Cons.prems have
      "migrate_loop E dry_run ds (st\<lparr> stat_errors := stat_errors st + 1 \<rparr>) db = (st', db')"
      by simp
    from Cons.IH [OF this] show ?thesis .
  next
    case (Inr p)
    obtain oc db1 where p: "p = (oc, db1)" by (cases p)
    from Inr p have s: "migrate_step E dry_run db d = Inr (oc, db1)" by simp
    from Cons.prems s obtain st1 where
      "migrate_loop E dry_run ds st1 db1 = (st', db')"
      by (cases oc) auto
    from Cons.IH [OF this] have a:
      "db_class db' = db_class db1" "tweets db' = tweets db1" "thoughts db' = thoughts db1"
      "other_tables db' = other_tables db1" "dom (documents db1) \<subseteq> dom (documents db')"
      "dry_run \<longrightarrow> db' = db1"
      by simp_all
    from migrate_step_frame [OF s] have b:
      "db_class db1 = db_class db" "tweets db1 = tweets db" "thoughts db1 = thoughts db"
      "other_tables db1 = other_tables db" "dom (documents db) \<subseteq> dom (documents db1)"
      "dry_run \<longrightarrow> db1 = db"
      by simp_all
    from a(5) b(5) have "dom (documents db) \<subseteq> dom (documents db')" by (rule order_trans [rotated])
    with a b show ?thesis by simp
  qed
qed

lemma migrate_loop_counts:
  "migrate_loop E dry_run ds st db = (st', db') \<Longrightarrow>
   stat_migrated st' + stat_skipped st' + stat_errors st' =
     stat_migrated st + stat_skipped st + stat_errors st + int (length ds) \<and>
   stat_total st' = stat_total st"
proof (induction ds arbitrary: st db)
  case Nil
  then show ?case by simp
next
  case (Cons d ds)
  show ?case
  proof (cases "migrate_step E dry_run db d")
    case (Inl e)
    with Cons.prems have "migrate_loop E dry_run ds (st\<lparr> stat_errors := stat_errors st + 1 \<rparr>) db = (st', db')"
      by simp
    from Cons.IH [OF this] show ?thesis by simp
  next
    case (Inr p)
    obtain oc db1 where p: "p = (oc, db1)" by (cases p)
    show ?thesis
    proof (cases oc)
      case Skipped
      with Cons.prems Inr p have
        "migrate_loop E dry_run ds (st\<lparr> stat_skipped := stat_skipped st + 1 \<rparr>) db1 = (st', db')"
        by simp
      from Cons.IH [OF this] show ?thesis by simp
    next
      case Migrated
      with Cons.prems Inr p have
        "migrate_loop E dry_run ds (st\<lparr> stat_migrated := stat_migrated st + 1 \<rparr>) db1 = (st', db')"
        by simp
      from Cons.IH [OF this] show ?thesis by simp
    qed
  qed
qed



lemma migrate_loop_append:
  "migrate_loop E dry_run (xs @ ys) st db =
     (case migrate_loop E dry_run xs st db of (st1, db1) \<Rightarrow> migrate_loop E dry_run ys st1 db1)"
  by (induction xs arbitrary: st db) (auto split: sum.splits outcome.splits)



lemma fetch_rows_Decodable: "fetch_rows (map Decodable rows) = Inr rows"
  by (induction rows) simp_all



lemma outcomes_length: "length (outcomes step rows db) = length rows"
  by (induction rows arbitrary: db) (auto split: sum.splits prod.splits)




lemma migrate_loop_outcomes:
  "migrate_loop E dry_run ds st db = (st', db') \<Longrightarrow>
   stat_total st' = stat_total st \<and>
   stat_migrated st' = stat_migrated st +
     int (length (filter (\<lambda>oc. oc = Inr Migrated) (outcomes (migrate_step E dry_run) ds db))) \<and>
   stat_skipped st' = stat_skipped st +
     int (length (filter (\<lambda>oc. oc = Inr Skipped) (outcomes (migrate_step E dry_run) ds db))) \<and>
   stat_errors st' = stat_errors st +
     int (length (filter isl (outcomes (migrate_step E dry_run) ds db)))"
proof (induction ds arbitrary: st db)
  case Nil
  then show ?case by simp
next
  case (Cons d ds)
  show ?case
  proof (cases "migrate_step E dry_run db d")
    case (Inl e)
    with Cons.prems have
      "migrate_loop E dry_run ds (st\<lparr> stat_errors := stat_errors st + 1 \<rparr>) db = (st', db')"
      by simp
    from Cons.IH [OF this] Inl show ?thesis by simp
  next
    case (Inr p)
    obtain oc db1 where p: "p = (oc, db1)" by (cases p)
    show ?thesis
    proof (cases oc)
      case Skipped
      with Cons.prems Inr p have
        "migrate_loop E dry_run ds (st\<lparr> stat_skipped := stat_skipped st + 1 \<rparr>) db1 = (st', db')"
        by simp
      from Cons.IH [OF this] Inr p Skipped show ?thesis by simp
    next
      case Migrated
      with Cons.prems Inr p have
        "migrate_loop E dry_run ds (st\<lparr> stat_migrated := stat_migrated st + 1 \<rparr>) db1 = (st', db')"
        by simp
      from Cons.IH [OF this] Inr p Migrated show ?thesis by simp
    qed
  qed
qed

lemma migrate_loop_tally:
  assumes "migrate_loop E dry_run ds
             \<lparr> stat_total = n, stat_migrated = 0, stat_skipped = 0, stat_errors = 0 \<rparr> db
           = (st', db')"
    and "n = int (length ds)"
  shows "st' = tally (outcomes (migrate_step E dry_run) ds db)"
proof -
  from migrate_loop_outcomes [OF assms(1)] assms(2) show ?thesis
    by (intro stats.equality) (simp_all add: tally_def outcomes_length)
qed

lemma migrate_step_dry_frame: "migrate_step E True db d = Inr (oc, db') \<Longrightarrow> db' = db"
  by (auto simp: migrate_step_def split: sum.splits prod.splits if_splits)

lemma outcomes_dry_run:
  "outcomes (migrate_step E True) ds db =
   map (\<lambda>d. case migrate_step E True db d of Inl e \<Rightarrow> Inl e | Inr (oc, db') \<Rightarrow> Inr oc) ds"
proof (induction ds)
  case Nil
  then show ?case by simp
next
  case (Cons d ds)
  show ?case
  proof (cases "migrate_step E True db d")
    case (Inl e)
    with Cons.IH show ?thesis by simp
  next
    case (Inr p)
    obtain oc db1 where p: "p = (oc, db1)" by (cases p)
    with Inr have "db1 = db" by (auto dest: migrate_step_dry_frame)
    with Inr p Cons.IH show ?thesis by simp
  qed
qed

lemma migrate_step_dry_real:
  "(case migrate_step E True db d of
      Inl e \<Rightarrow> migrate_step E False db d = Inl e
    | Inr (oc, db1) \<Rightarrow>
        db1 = db \<and>
        (case oc of
           Skipped \<Rightarrow>
             (\<exists>doc_id rest.
                d = Inr (doc_id, rest) \<and> documents db doc_id \<noteq> None \<and>
                migrate_step E False db d = Inr (Skipped, db))
         | Migrated \<Rightarrow>
             (\<exists>doc_id kwargs.
                d = Inr (doc_id, Inr kwargs) \<and> documents db doc_id = None \<and>
                migrate_step E False db d =
                  (case insert_document E db doc_id kwargs of
                     Inl e \<Rightarrow> Inl e
                   | Inr db' \<Rightarrow> Inr (Migrated, db')))))"
  by (auto simp: migrate_step_def split: sum.splits prod.splits)

lemma DataMigration_tweets_loop:
  "DataMigration_migrate_tweets_to_documents E dry_run table db =
     (case fetchall table of
        Inl e \<Rightarrow> (Inl e, db)
      | Inr fetched \<Rightarrow>
          (Inr (fst (migrate_loop E dry_run (map (tweet_derivation E) fetched)
                       \<lparr> stat_total = int (length fetched), stat_migrated = 0, stat_skipped = 0,
                         stat_errors = 0 \<rparr> db)),
           snd (migrate_loop E dry_run (map (tweet_derivation E) fetched)
                  \<lparr> stat_total = int (length fetched), stat_migrated = 0, stat_skipped = 0,
                    stat_errors = 0 \<rparr> db)))"
  by (simp add: DataMigration_migrate_tweets_to_documents_def migrate_tweets_loop_eq
      split_beta split: sum.splits)

lemma DataMigration_thoughts_loop:
  "DataMigration_migrate_thoughts_to_documents E dry_run table db =
     (case fetchall table of
        Inl e \<Rightarrow> (Inl e, db)
      | Inr fetched \<Rightarrow>
          (Inr (fst (migrate_loop E dry_run (map (thought_derivation E) fetched)
                       \<lparr> stat_total = int (length fetched), stat_migrated = 0, stat_skipped = 0,
                         stat_errors = 0 \<rparr> db)),
           snd (migrate_loop E dry_run (map (thought_derivation E) fetched)
                  \<lparr> stat_total = int (length fetched), stat_migrated = 0, stat_skipped = 0,
                    stat_errors = 0 \<rparr> db)))"
  by (simp add: DataMigration_migrate_thoughts_to_documents_def migrate_thoughts_loop_eq
      split_beta split: sum.splits)

text \<open>
  On a legacy table whose rows can all be decoded, the whole method returns what the
  loop from the fetched rows returns: the properties of \<open>migrate_tweets_to_documents\<close>
  and \<open>migrate_thoughts_to_documents\<close> below are properties of the calls that get past
  \<open>fetchall\<close>.
\<close>

lemma DataMigration_tweets_fetched:
  "DataMigration_migrate_tweets_to_documents E dry_run (Some (map Decodable (tweets db))) db =
     (Inr (fst (migrate_tweets_to_documents E dry_run db)),
      snd (migrate_tweets_to_documents E dry_run db))"
  by (simp add: DataMigration_migrate_tweets_to_documents_def fetch_rows_Decodable
      migrate_tweets_to_documents_def split_beta)

lemma DataMigration_thoughts_fetched:
  "DataMigration_migrate_thoughts_to_documents E dry_run (Some (map Decodable (thoughts db))) db =
     (Inr (fst (migrate_thoughts_to_documents E dry_run db)),
      snd (migrate_thoughts_to_documents E dry_run db))"
  by (simp add: DataMigration_migrate_thoughts_to_documents_def fetch_rows_Decodable
      migrate_thoughts_to_documents_def split_beta)

lemma migrate_loop_fst_tally:
  "n = int (length ds) \<Longrightarrow>
   fst (migrate_loop E dry_run ds
          \<lparr> stat_total = n, stat_migrated = 0, stat_skipped = 0, stat_errors = 0 \<rparr> db)
   = tally (outcomes (migrate_step E dry_run) ds db)"
  by (rule migrate_loop_tally [where db' = "snd (migrate_loop E dry_run ds
          \<lparr> stat_total = n, stat_migrated = 0, stat_skipped = 0, stat_errors = 0 \<rparr> db)"])
    simp_all

lemma migrate_loop_snd_dry:
  "snd (migrate_loop E True ds st db) = db"
  using migrate_loop_frame [of E True ds st db "fst (migrate_loop E True ds st db)"
      "snd (migrate_loop E True ds st db)"]
  by simp



text \<open>
  C10: the counters that either migration returns add up: \<open>migrated + skipped + errors\<close>
  is \<open>total\<close>, the number of rows fetched, with \<open>dry_run\<close> or without.
\<close>

theorem migration_counters_sum:
  "stat_migrated (fst (migrate_tweets_to_documents E dry_run db)) +
   stat_skipped (fst (migrate_tweets_to_documents E dry_run db)) +
   stat_errors (fst (migrate_tweets_to_documents E dry_run db)) =
     stat_total (fst (migrate_tweets_to_documents E dry_run db)) \<and>
   stat_total (fst (migrate_tweets_to_documents E dry_run db)) = int (length (tweets db)) \<and>
   stat_migrated (fst (migrate_thoughts_to_documents E dry_run db)) +
   stat_skipped (fst (migrate_thoughts_to_documents E dry_run db)) +
   stat_errors (fst (migrate_thoughts_to_documents E dry_run db)) =
     stat_total (fst (migrate_thoughts_to_documents E dry_run db)) \<and>
   stat_total (fst (migrate_thoughts_to_documents E dry_run db)) = int (length (thoughts db))"
proof -
  obtain st1 db1 where r1: "migrate_tweets_to_documents E dry_run db = (st1, db1)"
    by (cases "migrate_tweets_to_documents E dry_run db")
  obtain st2 db2 where r2: "migrate_thoughts_to_documents E dry_run db = (st2, db2)"
    by (cases "migrate_thoughts_to_documents E dry_run db")
  from r1 migrate_loop_counts [of E dry_run "map (tweet_derivation E) (tweets db)" _ db st1 db1]
  have "stat_migrated st1 + stat_skipped st1 + stat_errors st1 = stat_total st1 \<and>
        stat_total st1 = int (length (tweets db))"
    by (simp add: migrate_tweets_to_documents_def migrate_tweets_loop_eq)
  moreover
  from r2 migrate_loop_counts [of E dry_run "map (thought_derivation E) (thoughts db)" _ db st2 db2]
  have "stat_migrated st2 + stat_skipped st2 + stat_errors st2 = stat_total st2 \<and>
        stat_total st2 = int (length (thoughts db))"
    by (simp add: migrate_thoughts_to_documents_def migrate_thoughts_loop_eq)
  ultimately show ?thesis by (simp add: r1 r2)
qed

text \<open>
  C8: with \<open>dry_run\<close> the store that either migration leaves, and the one that the full
  migration leaves, is the store that it was given, also when the call raises. The dry
  run takes every step but the write. It runs the \<open>try\<close> block on every row, each on
  the unchanged store, and counts how the block ends: the stats are the tally of these
  over the rows. On a row, the block of the dry run raises where the one of the real
  run raises before the write; it ends at \<open>continue\<close>, the document id being in
  \<open>documents\<close>, where the real one does; and it ends counting the row as migrated where
  the real run reaches \<open>insert_document\<close>, whose result is then the result of the real
  run.
\<close>

theorem dry_run_writes_nothing:
  "snd (migrate_tweets_to_documents E True db) = db \<and>
   snd (migrate_thoughts_to_documents E True db) = db \<and>
   snd (run_full_migration E True db) = db \<and>
   snd (DataMigration_migrate_tweets_to_documents E True table db) = db \<and>
   snd (DataMigration_migrate_thoughts_to_documents E True table' db) = db \<and>
   fst (migrate_tweets_to_documents E True db) =
     tally (map (\<lambda>row. case migrate_tweet E True db row of
                          Inl e \<Rightarrow> Inl e
                        | Inr (oc, db') \<Rightarrow> Inr oc) (tweets db)) \<and>
   fst (migrate_thoughts_to_documents E True db) =
     tally (map (\<lambda>row. case migrate_thought E True db row of
                          Inl e \<Rightarrow> Inl e
                        | Inr (oc, db') \<Rightarrow> Inr oc) (thoughts db)) \<and>
   fst (DataMigration_migrate_tweets_to_documents E True table db) =
     (case fetchall table of
        Inl e \<Rightarrow> Inl e
      | Inr rows \<Rightarrow>
          Inr (tally (map (\<lambda>row. case migrate_tweet E True db row of
                                    Inl e \<Rightarrow> Inl e
                                  | Inr (oc, db') \<Rightarrow> Inr oc) rows))) \<and>
   fst (DataMigration_migrate_thoughts_to_documents E True table' db) =
     (case fetchall table' of
        Inl e \<Rightarrow> Inl e
      | Inr rows \<Rightarrow>
          Inr (tally (map (\<lambda>row. case migrate_thought E True db row of
                                    Inl e \<Rightarrow> Inl e
                                  | Inr (oc, db') \<Rightarrow> Inr oc) rows))) \<and>
   (\<forall>row.
      case migrate_tweet E True db row of
        Inl e \<Rightarrow> migrate_tweet E False db row = Inl e
      | Inr (oc, db1) \<Rightarrow>
          db1 = db \<and>
          (case oc of
             Skipped \<Rightarrow>
               (\<exists>doc_id rest.
                  tweet_derivation E row = Inr (doc_id, rest) \<and> documents db doc_id \<noteq> None \<and>
                  migrate_tweet E False db row = Inr (Skipped, db))
           | Migrated \<Rightarrow>
               (\<exists>doc_id kwargs.
                  tweet_derivation E row = Inr (doc_id, Inr kwargs) \<and>
                  documents db doc_id = None \<and>
                  migrate_tweet E False db row =
                    (case insert_document E db doc_id kwargs of
                       Inl e \<Rightarrow> Inl e
                     | Inr db' \<Rightarrow> Inr (Migrated, db'))))) \<and>
   (\<forall>row.
      case migrate_thought E True db row of
        Inl e \<Rightarrow> migrate_thought E False db row = Inl e
      | Inr (oc, db1) \<Rightarrow>
          db1 = db \<and>
          (case oc of
             Skipped \<Rightarrow>
               (\<exists>doc_id rest.
                  thought_derivation E row = Inr (doc_id, rest) \<and> documents db doc_id \<noteq> None \<and>
                  migrate_thought E False db row = Inr (Skipped, db))
           | Migrated \<Rightarrow>
               (\<exists>doc_id kwargs.
                  thought_derivation E row = Inr (doc_id, Inr kwargs) \<and>
                  documents db doc_id = None \<and>
                  migrate_thought E False db row =
                    (case insert_document E db doc_id kwargs of
                       Inl e \<Rightarrow> Inl e
                     | Inr db' \<Rightarrow> Inr (Migrated, db')))))"
proof -
  have t: "snd (migrate_tweets_to_documents E True d0) = d0" for d0
    by (simp add: migrate_tweets_to_documents_loop migrate_loop_snd_dry)
  have h: "snd (migrate_thoughts_to_documents E True d0) = d0" for d0
    by (simp add: migrate_thoughts_to_documents_loop migrate_loop_snd_dry)
  have f: "snd (run_full_migration E True db) = db"
  proof -
    obtain s1 d1 where r1: "migrate_tweets_to_documents E True db = (s1, d1)"
      by (cases "migrate_tweets_to_documents E True db")
    obtain s2 d2 where r2: "migrate_thoughts_to_documents E True d1 = (s2, d2)"
      by (cases "migrate_thoughts_to_documents E True d1")
    from r1 t [of db] have "d1 = db" by simp
    moreover from r2 h [of d1] have "d2 = d1" by simp
    ultimately show ?thesis using r1 r2 by (simp add: run_full_migration_def)
  qed
  have dt: "snd (DataMigration_migrate_tweets_to_documents E True table db) = db"
    by (simp add: DataMigration_tweets_loop migrate_loop_snd_dry split: sum.splits)
  have dh: "snd (DataMigration_migrate_thoughts_to_documents E True table' db) = db"
    by (simp add: DataMigration_thoughts_loop migrate_loop_snd_dry split: sum.splits)
  have ot: "outcomes (migrate_step E True) (map (tweet_derivation E) rows) db =
            map (\<lambda>row. case migrate_tweet E True db row of
                          Inl e \<Rightarrow> Inl e
                        | Inr (oc, db') \<Rightarrow> Inr oc) rows" for rows
    by (simp add: outcomes_dry_run migrate_tweet_step comp_def)
  have oh: "outcomes (migrate_step E True) (map (thought_derivation E) rows) db =
            map (\<lambda>row. case migrate_thought E True db row of
                          Inl e \<Rightarrow> Inl e
                        | Inr (oc, db') \<Rightarrow> Inr oc) rows" for rows
    by (simp add: outcomes_dry_run migrate_thought_step comp_def)
  have ct: "fst (migrate_tweets_to_documents E True db) =
     tally (map (\<lambda>row. case migrate_tweet E True db row of
                          Inl e \<Rightarrow> Inl e
                        | Inr (oc, db') \<Rightarrow> Inr oc) (tweets db))"
    by (simp add: migrate_tweets_to_documents_loop migrate_loop_fst_tally ot)
  have ch: "fst (migrate_thoughts_to_documents E True db) =
     tally (map (\<lambda>row. case migrate_thought E True db row of
                          Inl e \<Rightarrow> Inl e
                        | Inr (oc, db') \<Rightarrow> Inr oc) (thoughts db))"
    by (simp add: migrate_thoughts_to_documents_loop migrate_loop_fst_tally oh)
  have cdt: "fst (DataMigration_migrate_tweets_to_documents E True table db) =
     (case fetchall table of
        Inl e \<Rightarrow> Inl e
      | Inr rows \<Rightarrow>
          Inr (tally (map (\<lambda>row. case migrate_tweet E True db row of
                                    Inl e \<Rightarrow> Inl e
                                  | Inr (oc, db') \<Rightarrow> Inr oc) rows)))"
    by (simp add: DataMigration_tweets_loop migrate_loop_fst_tally ot split: sum.splits)
  have cdh: "fst (DataMigration_migrate_thoughts_to_documents E True table' db) =
     (case fetchall table' of
        Inl e \<Rightarrow> Inl e
      | Inr rows \<Rightarrow>
          Inr (tally (map (\<lambda>row. case migrate_thought E True db row of
                                    Inl e \<Rightarrow> Inl e
                                  | Inr (oc, db') \<Rightarrow> Inr oc) rows)))"
    by (simp add: DataMigration_thoughts_loop migrate_loop_fst_tally oh split: sum.splits)
  have rt: "case migrate_tweet E True db row of
        Inl e \<Rightarrow> migrate_tweet E False db row = Inl e
      | Inr (oc, db1) \<Rightarrow>
          db1 = db \<and>
          (case oc of
             Skipped \<Rightarrow>
               (\<exists>doc_id rest.
                  tweet_derivation E row = Inr (doc_id, rest) \<and> documents db doc_id \<noteq> None \<and>
                  migrate_tweet E False db row = Inr (Skipped, db))
           | Migrated \<Rightarrow>
               (\<exists>doc_id kwargs.
                  tweet_derivation E row = Inr (doc_id, Inr kwargs) \<and>
                  documents db doc_id = None \<and>
                  migrate_tweet E False db row =
                    (case insert_document E db doc_id kwargs of
                       Inl e \<Rightarrow> Inl e
                     | Inr db' \<Rightarrow> Inr (Migrated, db'))))" for row
    unfolding migrate_tweet_step by (rule migrate_step_dry_real)
  have rh: "case migrate_thought E True db row of
        Inl e \<Rightarrow> migrate_thought E False db row = Inl e
      | Inr (oc, db1) \<Rightarrow>
          db1 = db \<and>
          (case oc of
             Skipped \<Rightarrow>
               (\<exists>doc_id rest.
                  thought_derivation E row = Inr (doc_id, rest) \<and> documents db doc_id \<noteq> None \<and>
                  migrate_thought E False db row = Inr (Skipped, db))
           | Migrated \<Rightarrow>
               (\<exists>doc_id kwargs.
                  thought_derivation E row = Inr (doc_id, Inr kwargs) \<and>
                  documents db doc_id = None \<and>
                  migrate_thought E False db row =
                    (case insert_document E db doc_id kwargs of
                       Inl e \<Rightarrow> Inl e
                     | Inr db' \<Rightarrow> Inr (Migrated, db'))))" for row
    unfolding migrate_thought_step by (rule migrate_step_dry_real)
  from t [of db] h [of db] f dt dh ct ch cdt cdh rt rh show ?thesis
    by (intro conjI allI)
qed

lemma tweet_with_twitter_date_derivation:
  "tweet_derivation E tweet_with_twitter_date =
     Inr (sha256_hexdigest E ''hellotwitter://alice/1Wed Oct 10 20:19:24 +0000 2018'',
          Inl ValueError)"
  by (simp add: tweet_derivation_def tweet_with_twitter_date_def generate_document_id_any_def
      py_fromisoformat_def replace_Z_def isdigit_def Let_def)

lemma thought_with_bad_date_derivation:
  "thought_derivation E thought_with_bad_date =
     Inr (sha256_hexdigest E ''notethought://1yesterday'', Inl ValueError)"
  by (simp add: thought_derivation_def thought_with_bad_date_def generate_document_id_any_def
      py_fromisoformat_def isdigit_def str_of_int_def Let_def)

lemma thought_without_date_derivation:
  "thought_derivation E thought_without_date =
     Inr (sha256_hexdigest E ''ideathought://2None'',
          Inr [(''source_type'', PStr ''user''),
               (''content_type'', PStr ''note''),
               (''title'', PNone),
               (''author'', PNone),
               (''content'', PStr ''idea''),
               (''source_path'', PStr ''thought://2''),
               (''is_chunked'', PBool False),
               (''metadata'', PDict [(''thought_id'', PInt 2), (''category'', PNone),
                                     (''updated_at'', PNone)]),
               (''tags'', PList []),
               (''created_at'', PNone)])"
  by (simp add: thought_derivation_def thought_without_date_def generate_document_id_any_def
      str_of_int_def Let_def)






theorem migration_counters_sum_witness:
  "\<forall>E. stat_migrated (fst (migrate_thoughts_to_documents E False
           (legacy_store SelfDatabase [] [thought_with_bad_date, thought_without_date]))) +
       stat_skipped (fst (migrate_thoughts_to_documents E False
           (legacy_store SelfDatabase [] [thought_with_bad_date, thought_without_date]))) +
       stat_errors (fst (migrate_thoughts_to_documents E False
           (legacy_store SelfDatabase [] [thought_with_bad_date, thought_without_date]))) = 2 \<and>
       stat_total (fst (migrate_tweets_to_documents E False
           (legacy_store MonkDatabase [tweet_with_twitter_date] []))) = 1"
proof
  fix E
  let ?T = "legacy_store SelfDatabase [] [thought_with_bad_date, thought_without_date]"
  let ?S = "legacy_store MonkDatabase [tweet_with_twitter_date] []"
  from migration_counters_sum [of E False ?T] migration_counters_sum [of E False ?S]
  show "stat_migrated (fst (migrate_thoughts_to_documents E False ?T)) +
       stat_skipped (fst (migrate_thoughts_to_documents E False ?T)) +
       stat_errors (fst (migrate_thoughts_to_documents E False ?T)) = 2 \<and>
       stat_total (fst (migrate_tweets_to_documents E False ?S)) = 1"
    by (simp add: legacy_store_def)
qed

theorem dry_run_writes_nothing_witness:
  "\<forall>E. migrate_tweets_to_documents E True
           (legacy_store SelfDatabase [tweet_with_twitter_date]
              [thought_with_bad_date, thought_without_date])
         = (\<lparr> stat_total = 1, stat_migrated = 0, stat_skipped = 0, stat_errors = 1 \<rparr>,
            legacy_store SelfDatabase [tweet_with_twitter_date]
              [thought_with_bad_date, thought_without_date]) \<and>
       migrate_thoughts_to_documents E True
           (legacy_store SelfDatabase [tweet_with_twitter_date]
              [thought_with_bad_date, thought_without_date])
         = (\<lparr> stat_total = 2, stat_migrated = 1, stat_skipped = 0, stat_errors = 1 \<rparr>,
            legacy_store SelfDatabase [tweet_with_twitter_date]
              [thought_with_bad_date, thought_without_date]) \<and>
       snd (run_full_migration E True
              (legacy_store SelfDatabase [tweet_with_twitter_date]
                 [thought_with_bad_date, thought_without_date]))
         = legacy_store SelfDatabase [tweet_with_twitter_date]
             [thought_with_bad_date, thought_without_date] \<and>
       DataMigration_migrate_thoughts_to_documents E True
           (Some [Decodable thought_with_bad_date, Undecodable])
           (legacy_store SelfDatabase [tweet_with_twitter_date]
              [thought_with_bad_date, thought_without_date])
         = (Inl OperationalError,
            legacy_store SelfDatabase [tweet_with_twitter_date]
              [thought_with_bad_date, thought_without_date]) \<and>
       migrate_thought E False
           (legacy_store SelfDatabase [tweet_with_twitter_date]
              [thought_with_bad_date, thought_without_date])
           thought_with_bad_date = Inl ValueError \<and>
       migrate_tweets_to_documents E True
           (legacy_store_with_documents SelfDatabase [tweet_with_twitter_date]
              [thought_with_bad_date, thought_without_date]
              [sha256_hexdigest E ''hellotwitter://alice/1Wed Oct 10 20:19:24 +0000 2018'',
               sha256_hexdigest E ''notethought://1yesterday'',
               sha256_hexdigest E ''ideathought://2None''])
         = (\<lparr> stat_total = 1, stat_migrated = 0, stat_skipped = 1, stat_errors = 0 \<rparr>,
            legacy_store_with_documents SelfDatabase [tweet_with_twitter_date]
              [thought_with_bad_date, thought_without_date]
              [sha256_hexdigest E ''hellotwitter://alice/1Wed Oct 10 20:19:24 +0000 2018'',
               sha256_hexdigest E ''notethought://1yesterday'',
               sha256_hexdigest E ''ideathought://2None'']) \<and>
       migrate_thoughts_to_documents E True
           (legacy_store_with_documents SelfDatabase [tweet_with_twitter_date]
              [thought_with_bad_date, thought_without_date]
              [sha256_hexdigest E ''hellotwitter://alice/1Wed Oct 10 20:19:24 +0000 2018'',
               sha256_hexdigest E ''notethought://1yesterday'',
               sha256_hexdigest E ''ideathought://2None''])
         = (\<lparr> stat_total = 2, stat_migrated = 0, stat_skipped = 2, stat_errors = 0 \<rparr>,
            legacy_store_with_documents SelfDatabase [tweet_with_twitter_date]
              [thought_with_bad_date, thought_without_date]
              [sha256_hexdigest E ''hellotwitter://alice/1Wed Oct 10 20:19:24 +0000 2018'',
               sha256_hexdigest E ''notethought://1yesterday'',
               sha256_hexdigest E ''ideathought://2None'']) \<and>
       migrate_thought E False
           (legacy_store_with_documents SelfDatabase [tweet_with_twitter_date]
              [thought_with_bad_date, thought_without_date]
              [sha256_hexdigest E ''hellotwitter://alice/1Wed Oct 10 20:19:24 +0000 2018'',
               sha256_hexdigest E ''notethought://1yesterday'',
               sha256_hexdigest E ''ideathought://2None''])
           thought_without_date
         = Inr (Skipped,
             legacy_store_with_documents SelfDatabase [tweet_with_twitter_date]
               [thought_with_bad_date, thought_without_date]
               [sha256_hexdigest E ''hellotwitter://alice/1Wed Oct 10 20:19:24 +0000 2018'',
                sha256_hexdigest E ''notethought://1yesterday'',
                sha256_hexdigest E ''ideathought://2None'']) \<and>
       migrate_thought E True (legacy_store MonkDatabase [] [thought_without_date])
           thought_without_date
         = Inr (Migrated, legacy_store MonkDatabase [] [thought_without_date]) \<and>
       migrate_thought E False (legacy_store MonkDatabase [] [thought_without_date])
           thought_without_date
         = Inl TypeError"
proof
  fix E :: pylib
  let ?S = "legacy_store SelfDatabase [tweet_with_twitter_date]
              [thought_with_bad_date, thought_without_date]"
  let ?D = "legacy_store_with_documents SelfDatabase [tweet_with_twitter_date]
              [thought_with_bad_date, thought_without_date]
              [sha256_hexdigest E ''hellotwitter://alice/1Wed Oct 10 20:19:24 +0000 2018'',
               sha256_hexdigest E ''notethought://1yesterday'',
               sha256_hexdigest E ''ideathought://2None'']"
  let ?bad = "Some [Decodable thought_with_bad_date, Undecodable]"
  note S = dry_run_writes_nothing [of E ?S None ?bad]
  note D = dry_run_writes_nothing [of E ?D None ?bad]
  have dry_S: "migrate_thought E True ?S thought_with_bad_date = Inl ValueError"
    by (simp add: migrate_thought_step thought_with_bad_date_derivation migrate_step_def
        legacy_store_def)
  have dry_D: "migrate_thought E True ?D thought_without_date = Inr (Skipped, ?D)"
    by (simp add: migrate_thought_step thought_without_date_derivation migrate_step_def
        legacy_store_with_documents_def)
  have tweets_S: "fst (migrate_tweets_to_documents E True ?S)
         = \<lparr> stat_total = 1, stat_migrated = 0, stat_skipped = 0, stat_errors = 1 \<rparr>"
    unfolding S [THEN conjunct2, THEN conjunct2, THEN conjunct2, THEN conjunct2, THEN conjunct2,
        THEN conjunct1]
    by (simp add: migrate_tweet_step tweet_with_twitter_date_derivation migrate_step_def
        legacy_store_def tally_def)
  have thoughts_S: "fst (migrate_thoughts_to_documents E True ?S)
         = \<lparr> stat_total = 2, stat_migrated = 1, stat_skipped = 0, stat_errors = 1 \<rparr>"
    unfolding S [THEN conjunct2, THEN conjunct2, THEN conjunct2, THEN conjunct2, THEN conjunct2,
        THEN conjunct2, THEN conjunct1]
    by (simp add: migrate_thought_step thought_with_bad_date_derivation
        thought_without_date_derivation migrate_step_def legacy_store_def tally_def)
  have tweets_D: "fst (migrate_tweets_to_documents E True ?D)
         = \<lparr> stat_total = 1, stat_migrated = 0, stat_skipped = 1, stat_errors = 0 \<rparr>"
    unfolding D [THEN conjunct2, THEN conjunct2, THEN conjunct2, THEN conjunct2, THEN conjunct2,
        THEN conjunct1]
    by (simp add: migrate_tweet_step tweet_with_twitter_date_derivation migrate_step_def
        legacy_store_with_documents_def tally_def)
  have thoughts_D: "fst (migrate_thoughts_to_documents E True ?D)
         = \<lparr> stat_total = 2, stat_migrated = 0, stat_skipped = 2, stat_errors = 0 \<rparr>"
    unfolding D [THEN conjunct2, THEN conjunct2, THEN conjunct2, THEN conjunct2, THEN conjunct2,
        THEN conjunct2, THEN conjunct1]
    by (simp add: migrate_thought_step thought_with_bad_date_derivation
        thought_without_date_derivation migrate_step_def legacy_store_with_documents_def
        tally_def)
  have one: "migrate_tweets_to_documents E True ?S
         = (\<lparr> stat_total = 1, stat_migrated = 0, stat_skipped = 0, stat_errors = 1 \<rparr>, ?S)"
    using tweets_S S [THEN conjunct1] by (simp only: prod_eq_iff fst_conv snd_conv)
  have two: "migrate_thoughts_to_documents E True ?S
         = (\<lparr> stat_total = 2, stat_migrated = 1, stat_skipped = 0, stat_errors = 1 \<rparr>, ?S)"
    using thoughts_S S [THEN conjunct2, THEN conjunct1]
    by (simp only: prod_eq_iff fst_conv snd_conv)
  have three: "snd (run_full_migration E True ?S) = ?S"
    by (rule S [THEN conjunct2, THEN conjunct2, THEN conjunct1])
  have "fst (DataMigration_migrate_thoughts_to_documents E True ?bad ?S) = Inl OperationalError"
    unfolding S [THEN conjunct2, THEN conjunct2, THEN conjunct2, THEN conjunct2, THEN conjunct2,
        THEN conjunct2, THEN conjunct2, THEN conjunct2, THEN conjunct1]
    by simp
  with S [THEN conjunct2, THEN conjunct2, THEN conjunct2, THEN conjunct2, THEN conjunct1]
  have four: "DataMigration_migrate_thoughts_to_documents E True ?bad ?S
              = (Inl OperationalError, ?S)"
    by (simp only: prod_eq_iff fst_conv snd_conv)
  from S [THEN conjunct2, THEN conjunct2, THEN conjunct2, THEN conjunct2, THEN conjunct2,
      THEN conjunct2, THEN conjunct2, THEN conjunct2, THEN conjunct2, THEN conjunct2,
      THEN spec, of thought_with_bad_date]
  have five: "migrate_thought E False ?S thought_with_bad_date = Inl ValueError"
    unfolding dry_S by simp
  have six: "migrate_tweets_to_documents E True ?D
         = (\<lparr> stat_total = 1, stat_migrated = 0, stat_skipped = 1, stat_errors = 0 \<rparr>, ?D)"
    using tweets_D D [THEN conjunct1] by (simp only: prod_eq_iff fst_conv snd_conv)
  have seven: "migrate_thoughts_to_documents E True ?D
         = (\<lparr> stat_total = 2, stat_migrated = 0, stat_skipped = 2, stat_errors = 0 \<rparr>, ?D)"
    using thoughts_D D [THEN conjunct2, THEN conjunct1]
    by (simp only: prod_eq_iff fst_conv snd_conv)
  from D [THEN conjunct2, THEN conjunct2, THEN conjunct2, THEN conjunct2, THEN conjunct2,
      THEN conjunct2, THEN conjunct2, THEN conjunct2, THEN conjunct2, THEN conjunct2,
      THEN spec, of thought_without_date]
  have eight: "migrate_thought E False ?D thought_without_date = Inr (Skipped, ?D)"
    unfolding dry_D by auto
  let ?M = "legacy_store MonkDatabase [] [thought_without_date]"
  have dry_M: "migrate_thought E True ?M thought_without_date = Inr (Migrated, ?M)"
    by (simp add: migrate_thought_step thought_without_date_derivation migrate_step_def
        legacy_store_def)
  from dry_run_writes_nothing [of E ?M None ?bad, THEN conjunct2, THEN conjunct2, THEN conjunct2,
      THEN conjunct2, THEN conjunct2, THEN conjunct2, THEN conjunct2, THEN conjunct2,
      THEN conjunct2, THEN conjunct2, THEN spec, of thought_without_date]
  obtain doc_id kwargs where
    d: "thought_derivation E thought_without_date = Inr (doc_id, Inr kwargs)" and
    real: "migrate_thought E False ?M thought_without_date =
             (case insert_document E ?M doc_id kwargs of
                Inl e \<Rightarrow> Inl e
              | Inr db' \<Rightarrow> Inr (Migrated, db'))"
    unfolding dry_M by auto
  from d have "insert_document E ?M doc_id kwargs = Inl TypeError"
    unfolding thought_without_date_derivation
    by (auto simp: insert_document_def call_keywords_def legacy_store_def)
  with real have nine: "migrate_thought E False ?M thought_without_date = Inl TypeError"
    by simp
  from one two three four five six seven eight dry_M nine
  show "migrate_tweets_to_documents E True ?S
         = (\<lparr> stat_total = 1, stat_migrated = 0, stat_skipped = 0, stat_errors = 1 \<rparr>, ?S) \<and>
       migrate_thoughts_to_documents E True ?S
         = (\<lparr> stat_total = 2, stat_migrated = 1, stat_skipped = 0, stat_errors = 1 \<rparr>, ?S) \<and>
       snd (run_full_migration E True ?S) = ?S \<and>
       DataMigration_migrate_thoughts_to_documents E True ?bad ?S = (Inl OperationalError, ?S) \<and>
       migrate_thought E False ?S thought_with_bad_date = Inl ValueError \<and>
       migrate_tweets_to_documents E True ?D
         = (\<lparr> stat_total = 1, stat_migrated = 0, stat_skipped = 1, stat_errors = 0 \<rparr>, ?D) \<and>
       migrate_thoughts_to_documents E True ?D
         = (\<lparr> stat_total = 2, stat_migrated = 0, stat_skipped = 2, stat_errors = 0 \<rparr>, ?D) \<and>
       migrate_thought E False ?D thought_without_date = Inr (Skipped, ?D) \<and>
       migrate_thought E True ?M thought_without_date = Inr (Migrated, ?M) \<and>
       migrate_thought E False ?M thought_without_date = Inl TypeError"
    by (intro conjI)
qed

section \<open>Properties of the indexer\<close>

text \<open>
  C9: when \<open>validate_source()\<close> returns false, \<open>index_from_adapter\<close> raises \<open>ValueError\<close>; it
  has taken no record from \<open>adapter.parse()\<close>, and the store is the one it was given.
\<close>

theorem index_from_adapter_invalid_source:
  "\<not> validate_source a \<Longrightarrow> index_from_adapter E db a = (Inl ValueError, db, 0)"
  by (simp add: index_from_adapter_def)

theorem index_from_adapter_invalid_source_witness:
  "\<forall>E. \<not> validate_source
            \<lparr> adapter_class = ''TwitterAdapter'', validate_source = False,
              parse = [[(''type'', PStr ''document''), (''content'', PStr ''hello'')]] \<rparr> \<and>
       index_from_adapter E (legacy_store SelfDatabase [] [])
            \<lparr> adapter_class = ''TwitterAdapter'', validate_source = False,
              parse = [[(''type'', PStr ''document''), (''content'', PStr ''hello'')]] \<rparr>
         = (Inl ValueError, legacy_store SelfDatabase [] [], 0)"
proof
  fix E
  let ?a = "\<lparr> adapter_class = ''TwitterAdapter'', validate_source = False,
              parse = [[(''type'', PStr ''document''), (''content'', PStr ''hello'')]] \<rparr>"
  have invalid: "\<not> validate_source ?a" by simp
  from invalid index_from_adapter_invalid_source [OF invalid, of E "legacy_store SelfDatabase [] []"]
  show "\<not> validate_source ?a \<and>
       index_from_adapter E (legacy_store SelfDatabase [] []) ?a
         = (Inl ValueError, legacy_store SelfDatabase [] [], 0)"
    by simp
qed

end
